theory Spec2Isabelle
  imports Main "HOL-Library.Sublist" "HOL-Library.AList"
begin

section \<open>RateLimiter (src/utils/RateLimiter.ts)\<close>

text \<open>
  The limiter keeps one entry per key in a \<open>Map\<close>. Times are the millisecond
  values of \<open>Date.now()\<close>; they and the counters are JavaScript integers well inside the
  exactly representable range, so they are modelled as \<open>int\<close>. The two configuration
  constants are read once from the environment with \<open>parseInt\<close>; they are fields of the
  limiter here (the source's fallbacks are 30000 and 1).
\<close>

record RateLimitEntry =
  lastMessageTime :: int
  messageCount :: int
  lastMessageContent :: string

record RateLimitResult =
  allowed :: bool
  reason :: "string option"
  retryAfter :: "int option"
  timeRemaining :: "int option"

record RateLimiter =
  rateLimitMap :: "string \<rightharpoonup> RateLimitEntry"
  RATE_LIMIT_WINDOW :: int
  MAX_MESSAGES_PER_WINDOW :: int

definition newEntry :: "int \<Rightarrow> string \<Rightarrow> RateLimitEntry" where
  "newEntry now content =
     \<lparr>lastMessageTime = now, messageCount = 1, lastMessageContent = content\<rparr>"

definition allowedResult :: RateLimitResult where
  "allowedResult = \<lparr>allowed = True, reason = None, retryAfter = None, timeRemaining = None\<rparr>"

definition rejectedResult :: "string \<Rightarrow> int \<Rightarrow> RateLimitResult" where
  "rejectedResult why remaining =
     \<lparr>allowed = False, reason = Some why, retryAfter = Some remaining,
      timeRemaining = Some remaining\<rparr>"

definition duplicateReason :: string where
  "duplicateReason = ''Mensagem duplicada detectada''"

definition rateLimitedReason :: string where
  "rateLimitedReason = ''Limite de mensagens atingido''"

text \<open>
  \<open>canSendMessage(key, content)\<close>; \<open>now\<close> is the value \<open>Date.now()\<close> returns on entry.
  The result is the returned object together with the limiter after the call.
\<close>

definition canSendMessage ::
  "RateLimiter \<Rightarrow> int \<Rightarrow> string \<Rightarrow> string \<Rightarrow> RateLimitResult \<times> RateLimiter" where
  "canSendMessage rl now key content =
     (case rateLimitMap rl key of
        None \<Rightarrow>
          (allowedResult, rl\<lparr>rateLimitMap := (rateLimitMap rl)(key \<mapsto> newEntry now content)\<rparr>)
      | Some entry \<Rightarrow>
          (let timeSinceLastMessage = now - lastMessageTime entry in
           if timeSinceLastMessage < RATE_LIMIT_WINDOW rl then
             if lastMessageContent entry = content then
               (rejectedResult duplicateReason (RATE_LIMIT_WINDOW rl - timeSinceLastMessage), rl)
             else if messageCount entry \<ge> MAX_MESSAGES_PER_WINDOW rl then
               (rejectedResult rateLimitedReason (RATE_LIMIT_WINDOW rl - timeSinceLastMessage), rl)
             else
               (allowedResult,
                rl\<lparr>rateLimitMap := (rateLimitMap rl)(key \<mapsto>
                     entry\<lparr>messageCount := messageCount entry + 1,
                           lastMessageTime := now,
                           lastMessageContent := content\<rparr>)\<rparr>)
           else
             (allowedResult,
              rl\<lparr>rateLimitMap := (rateLimitMap rl)(key \<mapsto> newEntry now content)\<rparr>)))"

text \<open>Every count the limiter ever stores is at least 1.\<close>

definition countOk :: "RateLimiter \<Rightarrow> string \<Rightarrow> bool" where
  "countOk rl key = (case rateLimitMap rl key of None \<Rightarrow> True | Some e \<Rightarrow> 1 \<le> messageCount e)"

section \<open>CircuitBreakerService (src/unnamed/part_006)\<close>

text \<open>
  The breaker is an object with mutable fields; \<open>execute\<close> reads the clock, may run the
  caller's asynchronous action, and updates the fields when the action settles. The world
  outside the breaker is a record holding the clock (\<open>Date.now()\<close>, in ms) and whatever
  else the action can change; the action is a function on that world which either resolves
  with a value or throws. An action that is not invoked leaves the world as it was.
\<close>

record 'x World =
  dateNow :: int
  outside :: 'x

datatype ('a, 'e) Outcome = Resolved 'a | Thrown 'e

record CircuitBreakerConfig =
  cfgThreshold :: int
  cfgCooldownTime :: int
  cfgServiceName :: string

record CircuitBreakerService =
  failureCount :: int
  threshold :: int
  cooldownTime :: int
  isOpen :: bool
  nextTryTime :: int
  serviceName :: string
  lastFailureTime :: int
  totalFailures :: int
  totalSuccesses :: int

text \<open>The constructor: the field initialisers, then the three configured values.\<close>

definition newCircuitBreaker :: "CircuitBreakerConfig \<Rightarrow> CircuitBreakerService" where
  "newCircuitBreaker config =
     \<lparr>failureCount = 0, threshold = cfgThreshold config, cooldownTime = cfgCooldownTime config,
      isOpen = False, nextTryTime = 0, serviceName = cfgServiceName config,
      lastFailureTime = 0, totalFailures = 0, totalSuccesses = 0\<rparr>"

text \<open>
  \<open>getInstance(serviceName, threshold = 3, cooldownTime = 30000)\<close> on the static registry:
  an existing instance is returned as it is, otherwise one is created and registered.
\<close>

definition getInstance ::
  "(string \<rightharpoonup> CircuitBreakerService) \<Rightarrow> string \<Rightarrow> int \<Rightarrow> int \<Rightarrow>
     CircuitBreakerService \<times> (string \<rightharpoonup> CircuitBreakerService)" where
  "getInstance instances name thr cool =
     (case instances name of
        Some cb \<Rightarrow> (cb, instances)
      | None \<Rightarrow>
          (let cb = newCircuitBreaker
                      \<lparr>cfgThreshold = thr, cfgCooldownTime = cool, cfgServiceName = name\<rparr>
           in (cb, instances(name \<mapsto> cb))))"

text \<open>\<open>Math.ceil(ms / 1000)\<close> on an integer number of milliseconds.\<close>

definition ceilSeconds :: "int \<Rightarrow> int" where
  "ceilSeconds ms = - ((- ms) div 1000)"

definition onSuccess :: "CircuitBreakerService \<Rightarrow> CircuitBreakerService" where
  "onSuccess cb = cb\<lparr>failureCount := 0, isOpen := False, totalSuccesses := totalSuccesses cb + 1\<rparr>"

definition openBreaker :: "CircuitBreakerService \<Rightarrow> int \<Rightarrow> CircuitBreakerService" where
  "openBreaker cb now = cb\<lparr>isOpen := True, nextTryTime := now + cooldownTime cb\<rparr>"

text \<open>
  What an action throws (or rejects with) is an arbitrary JavaScript value. \<open>onFailure\<close>
  reads \<open>error.message\<close> for its log line, after the counters are updated and before
  the threshold test; on \<open>undefined\<close> or \<open>null\<close> that read throws a \<open>TypeError\<close>, on
  every other value it yields a value or \<open>undefined\<close>. So the thrown values are split
  into the nullish ones and the rest.
\<close>

datatype 'e JsThrown = Nullish | NonNullish 'e

text \<open>
  \<open>onFailure(error)\<close>: the breaker after the call, and whether the call itself threw the
  \<open>TypeError\<close> of the log line, in which case \<open>open()\<close> was not reached.
\<close>

definition onFailure ::
  "CircuitBreakerService \<Rightarrow> int \<Rightarrow> 'e JsThrown \<Rightarrow> bool \<times> CircuitBreakerService" where
  "onFailure cb now error =
     (let cb1 = cb\<lparr>failureCount := failureCount cb + 1, lastFailureTime := now,
                     totalFailures := totalFailures cb + 1\<rparr>
      in case error of
           Nullish \<Rightarrow> (True, cb1)
         | NonNullish _ \<Rightarrow>
             (False, if failureCount cb1 \<ge> threshold cb1 then openBreaker cb1 now else cb1))"

text \<open>
  What \<open>execute\<close> gives back to its caller: the action's value, the action's own error
  rethrown, the \<open>TypeError\<close> that \<open>onFailure\<close> threw in its place, or the breaker's
  error. The breaker's error is built from the service name and the remaining cooldown in
  whole seconds (\<open>Circuit breaker aberto para <name>. Tente novamente em <n>s\<close>); the
  model keeps the two values the text is built from.
\<close>

datatype ('a, 'e) ExecuteResult =
    Returned 'a
  | Rethrown "'e JsThrown"
  | TypeErrorThrown
  | CircuitOpenError string int

definition execute ::
  "CircuitBreakerService \<Rightarrow> ('x World \<Rightarrow> ('a, 'e JsThrown) Outcome \<times> 'x World) \<Rightarrow> 'x World \<Rightarrow>
     ('a, 'e) ExecuteResult \<times> CircuitBreakerService \<times> 'x World" where
  "execute cb action w =
     (if isOpen cb \<and> dateNow w < nextTryTime cb then
        (CircuitOpenError (serviceName cb) (ceilSeconds (nextTryTime cb - dateNow w)), cb, w)
      else
        (case action w of
           (Resolved result, w') \<Rightarrow> (Returned result, onSuccess cb, w')
         | (Thrown err, w') \<Rightarrow>
             (case onFailure cb (dateNow w') err of
                (True, cb') \<Rightarrow> (TypeErrorThrown, cb', w')
              | (False, cb') \<Rightarrow> (Rethrown err, cb', w'))))"

text \<open>
  An action that takes \<open>ms\<close> milliseconds and rejects with the given value, as
  \<open>() => Promise.reject(v)\<close> does.
\<close>

definition rejectingWith ::
  "'e JsThrown \<Rightarrow> int \<Rightarrow> 'x World \<Rightarrow> (nat, 'e JsThrown) Outcome \<times> 'x World" where
  "rejectingWith v ms w = (Thrown v, w\<lparr>dateNow := dateNow w + ms\<rparr>)"

section \<open>RabbitMQErrorHandler (src/utils/RabbitMQErrorHandler.ts)\<close>

text \<open>
  The error passed to the handler is an arbitrary JavaScript value of which the handler
  reads two properties: \<open>code\<close> (absent, a number, or a string as Node's system errors
  carry) and \<open>message\<close> (absent or a string). Strings are sequences of ASCII characters;
  \<open>toLowerCase\<close> maps \<open>A\<close>..\<open>Z\<close> to \<open>a\<close>..\<open>z\<close> and \<open>includes\<close> is the
  contiguous-substring test. The fields \<open>timestamp\<close> and \<open>userMessage\<close> of the error
  information only feed the log and are left out, as is the configured log level.
\<close>

datatype RabbitMQErrorType =
    CONNECTION_REFUSED
  | ACCESS_REFUSED
  | NOT_FOUND
  | PRECONDITION_FAILED
  | RESOURCE_LOCKED
  | CHANNEL_ERROR
  | PERMISSION_DENIED
  | QUEUE_NOT_FOUND
  | EXCHANGE_NOT_FOUND
  | INVALID_ROUTING_KEY
  | MESSAGE_TOO_LARGE
  | UNKNOWN_ERROR

datatype JsCode = NoCode | NumCode int | StrCode string

record JsError =
  errCode :: JsCode
  errMessage :: "string option"

record RabbitMQErrorInfo =
  errorType :: RabbitMQErrorType
  code :: JsCode
  message :: string
  errorContext :: string
  retryable :: bool
  retryDelay :: "int option"
  shouldReconnect :: bool
  shouldUseDLQ :: bool

record ErrorHandlingConfig =
  cfgMaxRetries :: nat
  cfgRetryDelay :: int
  cfgExponentialBackoff :: bool
  cfgDlqEnabled :: bool

text \<open>JavaScript truthiness of the two properties.\<close>

fun codeTruthy :: "JsCode \<Rightarrow> bool" where
  "codeTruthy NoCode = False"
| "codeTruthy (NumCode n) = (n \<noteq> 0)"
| "codeTruthy (StrCode s) = (s \<noteq> [])"

fun messageTruthy :: "string option \<Rightarrow> bool" where
  "messageTruthy None = False"
| "messageTruthy (Some m) = (m \<noteq> [])"

definition toLowerChar :: "char \<Rightarrow> char" where
  "toLowerChar c =
     (let n = (of_char c :: nat) in if 65 \<le> n \<and> n \<le> 90 then char_of (n + 32) else c)"

definition toLowerCase :: "string \<Rightarrow> string" where
  "toLowerCase s = map toLowerChar s"

definition jsIncludes :: "string \<Rightarrow> string \<Rightarrow> bool" where
  "jsIncludes s pat = sublist pat s"

text \<open>The object \<open>analyzeError\<close> starts from.\<close>

definition initialErrorInfo :: "JsError \<Rightarrow> string \<Rightarrow> RabbitMQErrorInfo" where
  "initialErrorInfo error ctx =
     \<lparr>errorType = UNKNOWN_ERROR, code = NumCode 0,
      message = (if messageTruthy (errMessage error) then the (errMessage error)
                 else ''Unknown error''),
      errorContext = ctx, retryable = False, retryDelay = None,
      shouldReconnect = False, shouldUseDLQ = False\<rparr>"

text \<open>The \<open>switch (error.code)\<close>, entered when the code is truthy; cases compare with \<open>===\<close>.\<close>

definition analyzeCode :: "JsCode \<Rightarrow> RabbitMQErrorInfo \<Rightarrow> RabbitMQErrorInfo" where
  "analyzeCode c info0 =
     (if codeTruthy c then
        (let info = info0\<lparr>code := c\<rparr> in
         if c = NumCode 403 then
           info\<lparr>errorType := ACCESS_REFUSED, retryable := False, shouldReconnect := False,
                shouldUseDLQ := True\<rparr>
         else if c = NumCode 404 then
           info\<lparr>errorType := NOT_FOUND, retryable := False, shouldReconnect := False,
                shouldUseDLQ := True\<rparr>
         else if c = NumCode 406 then
           info\<lparr>errorType := PRECONDITION_FAILED, retryable := False, shouldReconnect := False,
                shouldUseDLQ := True\<rparr>
         else if c = NumCode 405 then
           info\<lparr>errorType := RESOURCE_LOCKED, retryable := True, shouldReconnect := False,
                shouldUseDLQ := False, retryDelay := Some 5000\<rparr>
         else if c = NumCode 503 then
           info\<lparr>errorType := CONNECTION_REFUSED, retryable := True, shouldReconnect := True,
                shouldUseDLQ := False, retryDelay := Some 2000\<rparr>
         else
           info\<lparr>errorType := UNKNOWN_ERROR, retryable := True, shouldReconnect := True,
                shouldUseDLQ := True\<rparr>)
      else info0)"

text \<open>The \<open>if\<close>/\<open>else if\<close> chain over the lower-cased message, entered when it is truthy.\<close>

definition analyzeMessage :: "string option \<Rightarrow> RabbitMQErrorInfo \<Rightarrow> RabbitMQErrorInfo" where
  "analyzeMessage m info =
     (if messageTruthy m then
        (let msg = toLowerCase (the m) in
         if jsIncludes msg ''access refused'' \<or> jsIncludes msg ''403'' then
           info\<lparr>errorType := ACCESS_REFUSED, code := NumCode 403, retryable := False,
                shouldReconnect := False, shouldUseDLQ := True\<rparr>
         else if jsIncludes msg ''not found'' \<or> jsIncludes msg ''404'' then
           info\<lparr>errorType := NOT_FOUND, code := NumCode 404, retryable := False,
                shouldReconnect := False, shouldUseDLQ := True\<rparr>
         else if jsIncludes msg ''precondition failed'' \<or> jsIncludes msg ''406'' then
           info\<lparr>errorType := PRECONDITION_FAILED, code := NumCode 406, retryable := False,
                shouldReconnect := False, shouldUseDLQ := True\<rparr>
         else if jsIncludes msg ''resource locked'' \<or> jsIncludes msg ''405'' then
           info\<lparr>errorType := RESOURCE_LOCKED, code := NumCode 405, retryable := True,
                shouldReconnect := False, shouldUseDLQ := False, retryDelay := Some 5000\<rparr>
         else if jsIncludes msg ''connection refused'' \<or> jsIncludes msg ''503'' then
           info\<lparr>errorType := CONNECTION_REFUSED, code := NumCode 503, retryable := True,
                shouldReconnect := True, shouldUseDLQ := False, retryDelay := Some 2000\<rparr>
         else if jsIncludes msg ''permission denied'' then
           info\<lparr>errorType := PERMISSION_DENIED, code := NumCode 403, retryable := False,
                shouldReconnect := False, shouldUseDLQ := True\<rparr>
         else if jsIncludes msg ''queue not found'' then
           info\<lparr>errorType := QUEUE_NOT_FOUND, code := NumCode 404, retryable := False,
                shouldReconnect := False, shouldUseDLQ := True\<rparr>
         else if jsIncludes msg ''exchange not found'' then
           info\<lparr>errorType := EXCHANGE_NOT_FOUND, code := NumCode 404, retryable := False,
                shouldReconnect := False, shouldUseDLQ := True\<rparr>
         else if jsIncludes msg ''invalid routing key'' then
           info\<lparr>errorType := INVALID_ROUTING_KEY, code := NumCode 406, retryable := False,
                shouldReconnect := False, shouldUseDLQ := True\<rparr>
         else if jsIncludes msg ''message too large'' then
           info\<lparr>errorType := MESSAGE_TOO_LARGE, code := NumCode 406, retryable := False,
                shouldReconnect := False, shouldUseDLQ := True\<rparr>
         else info)
      else info)"

definition analyzeError :: "JsError \<Rightarrow> string \<Rightarrow> RabbitMQErrorInfo" where
  "analyzeError error ctx =
     analyzeMessage (errMessage error) (analyzeCode (errCode error) (initialErrorInfo error ctx))"

definition shouldRetry :: "ErrorHandlingConfig \<Rightarrow> RabbitMQErrorInfo \<Rightarrow> nat \<Rightarrow> bool" where
  "shouldRetry config info currentRetryCount =
     (if \<not> retryable info then False
      else if currentRetryCount \<ge> cfgMaxRetries config then False
      else if errorType info = ACCESS_REFUSED then False
      else if errorType info = PERMISSION_DENIED then False
      else if errorType info = MESSAGE_TOO_LARGE then False
      else True)"

text \<open>
  \<open>calculateRetryDelay\<close>: the error's own delay when it is set (and not 0), otherwise the
  configured delay, doubled once per retry already made when exponential backoff is on.
\<close>

definition calculateRetryDelay :: "ErrorHandlingConfig \<Rightarrow> RabbitMQErrorInfo \<Rightarrow> nat \<Rightarrow> int" where
  "calculateRetryDelay config info currentRetryCount =
     (case retryDelay info of
        Some d \<Rightarrow>
          if d \<noteq> 0 then d
          else if cfgExponentialBackoff config then cfgRetryDelay config * 2 ^ currentRetryCount
          else cfgRetryDelay config
      | None \<Rightarrow>
          if cfgExponentialBackoff config then cfgRetryDelay config * 2 ^ currentRetryCount
          else cfgRetryDelay config)"

datatype ErrorAction = Retry | Reconnect | Dlq | Discard | Log

record HandleErrorResult =
  errorInfo :: RabbitMQErrorInfo
  action :: ErrorAction
  delay :: int

definition handleError :: "ErrorHandlingConfig \<Rightarrow> JsError \<Rightarrow> string \<Rightarrow> nat \<Rightarrow> HandleErrorResult" where
  "handleError config error ctx currentRetryCount =
     (let info = analyzeError error ctx in
      if errorType info = ACCESS_REFUSED then
        \<lparr>errorInfo = info, action = Log, delay = 0\<rparr>
      else if errorType info = PERMISSION_DENIED then
        \<lparr>errorInfo = info, action = Log, delay = 0\<rparr>
      else if shouldReconnect info then
        \<lparr>errorInfo = info, action = Reconnect,
         delay = calculateRetryDelay config info currentRetryCount\<rparr>
      else if shouldRetry config info currentRetryCount then
        \<lparr>errorInfo = info, action = Retry,
         delay = calculateRetryDelay config info currentRetryCount\<rparr>
      else if shouldUseDLQ info \<and> cfgDlqEnabled config then
        \<lparr>errorInfo = info, action = Dlq, delay = 0\<rparr>
      else
        \<lparr>errorInfo = info, action = Discard, delay = 0\<rparr>)"

section \<open>UnifiedConsumer.handleMessageError (src/services/OpenAIService.ts)\<close>

text \<open>
  A delivery carries its content, its headers and, for reference, the name of the queue the
  consumer took it from (the handler itself never reads that name). The consumer's own
  configuration is set by its constructor to \<open>maxRetries = 3\<close>, \<open>retryDelay = 1000\<close>,
  \<open>dlqEnabled = true\<close> and handed to the error handler with exponential backoff on.

  Header values are numbers, strings, booleans, the ISO text of an instant (kept as the
  instant), or \<open>undefined\<close>.

  The handler's effect is the list of calls it makes on the channel, in order.
  \<open>PublishAfter d\<close> is a publish scheduled with \<open>setTimeout\<close> for \<open>d\<close> ms later. A
  dead-letter publish that throws leaves no publish in the list.
\<close>

datatype HeaderValue = HNum nat | HStr string | HBool bool | HTime int | HUndefined

record Delivery =
  msgContent :: string
  msgHeaders :: "(string \<times> HeaderValue) list"
  consumedFrom :: string

record ConsumerConfig =
  ccMaxRetries :: nat
  ccRetryDelay :: int
  ccDlqEnabled :: bool

datatype ChannelCall =
    Ack
  | Nack bool bool
  | Publish string string string "(string \<times> HeaderValue) list"
  | PublishAfter int string string string "(string \<times> HeaderValue) list"

definition defaultConsumerConfig :: ConsumerConfig where
  "defaultConsumerConfig = \<lparr>ccMaxRetries = 3, ccRetryDelay = 1000, ccDlqEnabled = True\<rparr>"

definition consumerErrorHandlerConfig :: "ConsumerConfig \<Rightarrow> ErrorHandlingConfig" where
  "consumerErrorHandlerConfig config =
     \<lparr>cfgMaxRetries = ccMaxRetries config, cfgRetryDelay = ccRetryDelay config,
      cfgExponentialBackoff = True, cfgDlqEnabled = ccDlqEnabled config\<rparr>"

text \<open>
  The retry count, \<open>headers['x-retry-count'] || 0\<close>. An absent or falsy header (0, the
  empty string, \<open>false\<close>, \<open>undefined\<close>) gives 0 and a number gives itself. Any other
  truthy value (a non-empty string, \<open>true\<close>) is kept by the source as it is and from then
  on compared and added under JavaScript's coercions (\<open>'2' + 1\<close> is \<open>'21'\<close>); what the
  handler does with such a header is outside this model, and the reading is \<open>None\<close>.
\<close>

definition xRetryCount :: "Delivery \<Rightarrow> nat option" where
  "xRetryCount msg =
     (case map_of (msgHeaders msg) ''x-retry-count'' of
        None \<Rightarrow> Some 0
      | Some (HNum n) \<Rightarrow> Some n
      | Some (HStr s) \<Rightarrow> if s = [] then Some 0 else None
      | Some (HBool b) \<Rightarrow> if b then None else Some 0
      | Some (HTime t) \<Rightarrow> None
      | Some HUndefined \<Rightarrow> Some 0)"

definition errorMessageHeader :: "JsError \<Rightarrow> HeaderValue" where
  "errorMessageHeader error = (case errMessage error of Some m \<Rightarrow> HStr m | None \<Rightarrow> HUndefined)"

definition errorTypeName :: "RabbitMQErrorType \<Rightarrow> string" where
  "errorTypeName t =
     (case t of
        CONNECTION_REFUSED \<Rightarrow> ''CONNECTION_REFUSED''
      | ACCESS_REFUSED \<Rightarrow> ''ACCESS_REFUSED''
      | NOT_FOUND \<Rightarrow> ''NOT_FOUND''
      | PRECONDITION_FAILED \<Rightarrow> ''PRECONDITION_FAILED''
      | RESOURCE_LOCKED \<Rightarrow> ''RESOURCE_LOCKED''
      | CHANNEL_ERROR \<Rightarrow> ''CHANNEL_ERROR''
      | PERMISSION_DENIED \<Rightarrow> ''PERMISSION_DENIED''
      | QUEUE_NOT_FOUND \<Rightarrow> ''QUEUE_NOT_FOUND''
      | EXCHANGE_NOT_FOUND \<Rightarrow> ''EXCHANGE_NOT_FOUND''
      | INVALID_ROUTING_KEY \<Rightarrow> ''INVALID_ROUTING_KEY''
      | MESSAGE_TOO_LARGE \<Rightarrow> ''MESSAGE_TOO_LARGE''
      | UNKNOWN_ERROR \<Rightarrow> ''UNKNOWN_ERROR'')"

text \<open>
  The object literal \<open>{...headers, k: v, ...}\<close>: an existing key keeps its place and takes
  the new value, a new key is added at the end.
\<close>

definition setHeader ::
  "string \<Rightarrow> HeaderValue \<Rightarrow> (string \<times> HeaderValue) list \<Rightarrow> (string \<times> HeaderValue) list" where
  "setHeader k v hs = AList.update k v hs"

definition retryHeaders ::
  "Delivery \<Rightarrow> nat \<Rightarrow> JsError \<Rightarrow> RabbitMQErrorInfo \<Rightarrow> int \<Rightarrow> (string \<times> HeaderValue) list" where
  "retryHeaders msg retryCount error info now =
     setHeader ''x-error-type'' (HStr (errorTypeName (errorType info)))
       (setHeader ''x-failed-at'' (HTime now)
         (setHeader ''x-error-message'' (errorMessageHeader error)
           (setHeader ''x-retry-count'' (HNum (retryCount + 1)) (msgHeaders msg))))"

definition dlqHeaders ::
  "Delivery \<Rightarrow> nat \<Rightarrow> JsError \<Rightarrow> RabbitMQErrorInfo \<Rightarrow> int \<Rightarrow> (string \<times> HeaderValue) list" where
  "dlqHeaders msg retryCount error info now =
     setHeader ''x-final-error'' (HBool True)
       (setHeader ''x-error-type'' (HStr (errorTypeName (errorType info)))
         (setHeader ''x-failed-at'' (HTime now)
           (setHeader ''x-error-message'' (errorMessageHeader error)
             (setHeader ''x-retry-count'' (HNum retryCount) (msgHeaders msg)))))"

text \<open>
  \<open>handleMessageError(msg, error, context)\<close>; \<open>now\<close> is the clock for \<open>x-failed-at\<close> and
  \<open>dlqPublishThrows\<close> says whether the awaited dead-letter publish throws. The error is
  whatever the handler threw: \<open>None\<close> stands for \<open>undefined\<close> or \<open>null\<close>, on which the
  first statement (the call of \<open>handleError\<close>, which reads \<open>error.message\<close>) throws a
  \<open>TypeError\<close> outside the \<open>try\<close>, so that the handler rejects without any call on
  the channel.
\<close>

datatype HandleMessageErrorResult =
    ChannelCalls "ChannelCall list"
  | RejectsWithTypeError
  | RetryCountNotNumeric

definition handleMessageError ::
  "ConsumerConfig \<Rightarrow> Delivery \<Rightarrow> JsError option \<Rightarrow> string \<Rightarrow> int \<Rightarrow> bool \<Rightarrow>
     HandleMessageErrorResult" where
  "handleMessageError config msg thrown ctx now dlqPublishThrows =
     (case thrown of
        None \<Rightarrow> RejectsWithTypeError
      | Some error \<Rightarrow>
          (case xRetryCount msg of
             None \<Rightarrow> RetryCountNotNumeric
           | Some retryCount \<Rightarrow>
               (let errorAction =
                      handleError (consumerErrorHandlerConfig config) error ctx retryCount
                in ChannelCalls
                    (if action errorAction = Retry \<and> retryCount < ccMaxRetries config then
                       [PublishAfter (delay errorAction) ''baileys.events'' ''message.retry''
                          (msgContent msg)
                          (retryHeaders msg retryCount error (errorInfo errorAction) now),
                        Ack]
                     else if action errorAction = Dlq \<and> ccDlqEnabled config then
                       (if dlqPublishThrows then [Nack False False]
                        else [Publish ''baileys.dlx'' ''dead.letter'' (msgContent msg)
                                (dlqHeaders msg retryCount error (errorInfo errorAction) now),
                              Ack])
                     else [Nack False False]))))"



section \<open>DeadLetterQueue (src/unnamed/part_004) and DLQManager (src/services/OpenAIService.ts)\<close>

text \<open>
  A dead-letter record as the store keeps it. The source's field \<open>id\<close> is \<open>dlqId\<close> here.
  The two timestamps are ISO strings written by \<open>new Date().toISOString()\<close> and read
  back with \<open>new Date(...)\<close>, which returns the same millisecond value; they are kept as
  that value. The payload is the original message, of which the code reads only the
  property \<open>queue\<close>. Records are stored as JSON text and parsed when read; the store here
  keeps the record itself.
\<close>

record OriginalMessage =
  queue :: "string option"
  body :: string

record DLQMessage =
  dlqId :: string
  originalRoutingKey :: string
  originalExchange :: string
  originalQueue :: string
  payload :: OriginalMessage
  error :: string
  retryCount :: nat
  maxRetries :: nat
  timestamp :: int
  lastErrorTimestamp :: int
  instanceId :: "string option"

record ArchiveEntry =
  archivedMessageId :: string
  archivedAt :: int
  archivedRoutingKey :: string
  archivedError :: string
  archivedRetryCount :: nat
  archivedInstanceId :: "string option"

text \<open>
  The key-value store: string keys holding a record with the expiry it was written with (in
  seconds), and list keys holding archive entries, newest first, with the expiry last set.
\<close>

record Redis =
  strings :: "string \<rightharpoonup> DLQMessage \<times> nat"
  lists :: "string \<rightharpoonup> ArchiveEntry list \<times> nat option"

datatype PublishedBody = PayloadBody OriginalMessage | RecordBody DLQMessage

record PublishCall =
  exchange :: string
  routingKey :: string
  publishedBody :: PublishedBody
  publishedMessageId :: string
  publishedHeaders :: "(string \<times> HeaderValue) list"

text \<open>
  \<open>channel.publish\<close> returns \<open>true\<close>, returns \<open>false\<close>, or throws (for one, when the
  channel is \<open>null\<close>, which \<open>retryMessage\<close> does not check).
\<close>

datatype PublishOutcome = PublishedTrue | PublishedFalse | PublishThrows

text \<open>
  The calls that reach the store and the broker are logged in the order they are made; a
  call that throws is logged only for the publish, with its outcome.
\<close>

datatype Effect =
    RedisSetEx string DLQMessage nat
  | RedisDel string
  | RedisLPush string ArchiveEntry
  | RedisExpire string nat
  | PublishAttempt PublishCall PublishOutcome

record DLQState =
  redis :: Redis
  effects :: "Effect list"

text \<open>
  What the surroundings do during one call: the clock reading (milliseconds, and the ISO
  date of the same instant), the identifier \<open>generateMessageId\<close> produces, and for every
  outside call whether it throws. The clock is read as one value during a call.
\<close>

record Env =
  envNow :: int
  envToday :: string
  envNewId :: string
  connectThrows :: bool
  redisGetThrows :: bool
  redisSetThrows :: bool
  redisDelThrows :: bool
  publishOutcome :: PublishOutcome

definition dlqConfigMaxRetries :: nat where
  "dlqConfigMaxRetries = 3"

definition dlqExchange :: string where
  "dlqExchange = ''baileys.dlx''"

definition dlqRoutingKey :: string where
  "dlqRoutingKey = ''dead.letter''"

definition dlqKey :: "string \<Rightarrow> string" where
  "dlqKey messageId = ''dlq:message:'' @ messageId"

definition archiveKey :: "string \<Rightarrow> string" where
  "archiveKey today = ''dlq:archive:'' @ today"

text \<open>\<open>7 * 24 * 60 * 60\<close> and \<open>30 * 24 * 60 * 60\<close> seconds.\<close>

definition dlqTtl :: nat where
  "dlqTtl = 7 * 24 * 60 * 60"

definition archiveTtl :: nat where
  "archiveTtl = 30 * 24 * 60 * 60"

text \<open>
  \<open>saveDLQMessageToRedis\<close> once the write is known not to throw: \<open>SETEX\<close> under the
  record's own identifier.
\<close>

definition saveDLQMessageToRedis :: "DLQState \<Rightarrow> DLQMessage \<Rightarrow> DLQState" where
  "saveDLQMessageToRedis st m =
     st\<lparr>redis := (redis st)\<lparr>strings := (strings (redis st))(dlqKey (dlqId m) \<mapsto> (m, dlqTtl))\<rparr>,
        effects := effects st @ [RedisSetEx (dlqKey (dlqId m)) m dlqTtl]\<rparr>"

definition getDLQMessageFromRedis :: "DLQState \<Rightarrow> string \<Rightarrow> DLQMessage option" where
  "getDLQMessageFromRedis st messageId = map_option fst (strings (redis st) (dlqKey messageId))"

definition doPublish :: "DLQState \<Rightarrow> PublishCall \<Rightarrow> PublishOutcome \<Rightarrow> DLQState" where
  "doPublish st call outcome = st\<lparr>effects := effects st @ [PublishAttempt call outcome]\<rparr>"

text \<open>
  \<open>sendToDeadLetterQueue(originalMessage, originalRoutingKey, error, retryCount,
  instanceId)\<close>. Every failure is caught and logged, so the result is the state alone.
\<close>

definition newDLQMessage ::
  "Env \<Rightarrow> OriginalMessage \<Rightarrow> string \<Rightarrow> string \<Rightarrow> nat \<Rightarrow> string option \<Rightarrow> DLQMessage" where
  "newDLQMessage env originalMessage rk err count inst =
     \<lparr>dlqId = envNewId env,
      originalRoutingKey = rk,
      originalExchange = ''baileys.events'',
      originalQueue = (case queue originalMessage of
                         Some q \<Rightarrow> if q \<noteq> [] then q else ''unknown''
                       | None \<Rightarrow> ''unknown''),
      payload = originalMessage,
      error = err,
      retryCount = count,
      maxRetries = dlqConfigMaxRetries,
      timestamp = envNow env,
      lastErrorTimestamp = envNow env,
      instanceId = inst\<rparr>"

definition dlqPublishCall :: "DLQMessage \<Rightarrow> PublishCall" where
  "dlqPublishCall m =
     \<lparr>exchange = dlqExchange, routingKey = dlqRoutingKey, publishedBody = RecordBody m,
      publishedMessageId = dlqId m,
      publishedHeaders =
        [(''x-retry-count'', HNum (retryCount m)),
         (''x-original-routing-key'', HStr (originalRoutingKey m)),
         (''x-error'', HStr (error m)),
         (''x-instance-id'',
            HStr (case instanceId m of Some i \<Rightarrow> if i \<noteq> [] then i else ''unknown''
                  | None \<Rightarrow> ''unknown''))]\<rparr>"

definition sendToDeadLetterQueue ::
  "DLQState \<Rightarrow> Env \<Rightarrow> OriginalMessage \<Rightarrow> string \<Rightarrow> string \<Rightarrow> nat \<Rightarrow> string option \<Rightarrow> DLQState" where
  "sendToDeadLetterQueue st env originalMessage rk err count inst =
     (if connectThrows env then st
      else
        (let dlqMessage = newDLQMessage env originalMessage rk err count inst in
         if redisSetThrows env then st
         else doPublish (saveDLQMessageToRedis st dlqMessage) (dlqPublishCall dlqMessage)
                (publishOutcome env)))"

text \<open>\<open>retryMessage(messageId)\<close>: the returned boolean and the state after the call.\<close>

definition retryPublishCall :: "Env \<Rightarrow> DLQMessage \<Rightarrow> string \<Rightarrow> PublishCall" where
  "retryPublishCall env m messageId =
     \<lparr>exchange = originalExchange m, routingKey = originalRoutingKey m,
      publishedBody = PayloadBody (payload m),
      publishedMessageId = envNewId env,
      publishedHeaders =
        [(''x-retry-attempt'', HNum (retryCount m)),
         (''x-dlq-message-id'', HStr messageId)]\<rparr>"

definition retryMessage :: "DLQState \<Rightarrow> Env \<Rightarrow> string \<Rightarrow> bool \<times> DLQState" where
  "retryMessage st env messageId =
     (if redisGetThrows env then (False, st)
      else
        (case getDLQMessageFromRedis st messageId of
           None \<Rightarrow> (False, st)
         | Some dlqMessage \<Rightarrow>
             if retryCount dlqMessage \<ge> maxRetries dlqMessage then (False, st)
             else
               (let m = dlqMessage\<lparr>retryCount := retryCount dlqMessage + 1,
                                   lastErrorTimestamp := envNow env\<rparr>
                in if redisSetThrows env then (False, st)
                   else
                     (let st1 = saveDLQMessageToRedis st m;
                          st2 = doPublish st1 (retryPublishCall env m messageId)
                                  (publishOutcome env)
                      in (publishOutcome env = PublishedTrue, st2)))))"

text \<open>
  \<open>DLQManager.isRecoverableError\<close>: the deny-list is consulted first, then the allow-list,
  then the default.
\<close>

definition recoverableErrors :: "string list" where
  "recoverableErrors =
     [''CONNECTION_RESET'', ''TIMEOUT'', ''NETWORK_ERROR'', ''TEMPORARY_FAILURE'',
      ''RATE_LIMIT'', ''SERVICE_UNAVAILABLE'']"

definition nonRecoverableErrors :: "string list" where
  "nonRecoverableErrors =
     [''AUTHENTICATION_ERROR'', ''INVALID_MESSAGE_FORMAT'', ''VALIDATION_ERROR'',
      ''PERMISSION_DENIED'', ''NOT_FOUND'']"

definition isRecoverableError :: "string \<Rightarrow> bool" where
  "isRecoverableError err =
     (if list_ex (jsIncludes err) nonRecoverableErrors then False
      else if list_ex (jsIncludes err) recoverableErrors then True
      else True)"

text \<open>
  \<open>DLQManager.shouldRetryMessage\<close>. The source divides the millisecond difference by 1000
  and compares the quotient with 300; on whole milliseconds that is the comparison of the
  difference with 300000.
\<close>

definition minRetryDelay :: int where
  "minRetryDelay = 300"

definition shouldRetryMessage :: "Env \<Rightarrow> DLQMessage \<Rightarrow> bool" where
  "shouldRetryMessage env m =
     (if retryCount m \<ge> maxRetries m then False
      else if envNow env - lastErrorTimestamp m < minRetryDelay * 1000 then False
      else isRecoverableError (error m))"

text \<open>
  The store's client is the one \<open>createClient\<close> of package \<open>redis\<close> returns
  (src/config/redis.ts, which calls its \<open>setEx\<close> and reads its \<open>isOpen\<close>). That client
  names its commands in camel case: the list push is \<open>lPush\<close>, and there is no property
  \<open>lpush\<close>. \<open>clientDefines\<close> holds of the names the client defines, among those this
  program calls on it and the list push.
\<close>

definition clientDefines :: "string \<Rightarrow> bool" where
  "clientDefines name =
     (name \<in> set [''on'', ''connect'', ''disconnect'', ''get'', ''set'', ''setEx'', ''del'',
                   ''keys'', ''expire'', ''lPush''])"

text \<open>
  \<open>archiveMessage\<close> builds the day's key and the entry and calls
  \<open>this.redis.getClient().lpush(...)\<close> and then \<open>expire\<close>, inside a \<open>try\<close> whose
  \<open>catch\<close> only logs. Calling a property the client does not define throws a
  \<open>TypeError\<close> before anything is sent to the store, and the function returns with the
  store as it was. \<open>discardMessage\<close> calls it and then deletes the live key; a throw from
  the delete is caught as well.
\<close>

definition archiveEntryOf :: "Env \<Rightarrow> DLQMessage \<Rightarrow> ArchiveEntry" where
  "archiveEntryOf env m =
     \<lparr>archivedMessageId = dlqId m, archivedAt = envNow env,
      archivedRoutingKey = originalRoutingKey m, archivedError = error m,
      archivedRetryCount = retryCount m, archivedInstanceId = instanceId m\<rparr>"

definition redisLPush :: "DLQState \<Rightarrow> string \<Rightarrow> ArchiveEntry \<Rightarrow> DLQState" where
  "redisLPush st k entry =
     st\<lparr>redis := (redis st)\<lparr>lists := (lists (redis st))(k \<mapsto>
              (case lists (redis st) k of
                 None \<Rightarrow> ([entry], None)
               | Some (es, ttl) \<Rightarrow> (entry # es, ttl)))\<rparr>,
        effects := effects st @ [RedisLPush k entry]\<rparr>"

definition redisExpire :: "DLQState \<Rightarrow> string \<Rightarrow> nat \<Rightarrow> DLQState" where
  "redisExpire st k ttl =
     st\<lparr>redis := (redis st)\<lparr>lists :=
              (case lists (redis st) k of
                 None \<Rightarrow> lists (redis st)
               | Some (es, _) \<Rightarrow> (lists (redis st))(k \<mapsto> (es, Some ttl)))\<rparr>,
        effects := effects st @ [RedisExpire k ttl]\<rparr>"

definition redisDel :: "DLQState \<Rightarrow> string \<Rightarrow> DLQState" where
  "redisDel st k =
     st\<lparr>redis := (redis st)\<lparr>strings := (strings (redis st))(k := None),
                            lists := (lists (redis st))(k := None)\<rparr>,
        effects := effects st @ [RedisDel k]\<rparr>"

definition archiveMessage :: "DLQState \<Rightarrow> Env \<Rightarrow> DLQMessage \<Rightarrow> DLQState" where
  "archiveMessage st env m =
     (let key = archiveKey (envToday env);
          archiveData = archiveEntryOf env m
      in if \<not> clientDefines ''lpush'' then st
         else redisExpire (redisLPush st key archiveData) key archiveTtl)"

definition discardMessage :: "DLQState \<Rightarrow> Env \<Rightarrow> DLQMessage \<Rightarrow> DLQState" where
  "discardMessage st env m =
     (let st1 = archiveMessage st env m
      in if redisDelThrows env then st1 else redisDel st1 (dlqKey (dlqId m)))"

text \<open>
  One turn of the loop of \<open>processFailedMessages\<close> on a loaded record, and the loop over
  the loaded records, each examined under its own surroundings. \<open>RetryCalled b\<close> says that
  \<open>retryMessage\<close> was called and returned \<open>b\<close>.
\<close>

record DLQProcessingStats =
  processed :: nat
  retried :: nat
  failed :: nat
  discarded :: nat

datatype SweepDecision = RetryCalled bool | DiscardCalled

definition sweepDecision :: "DLQState \<Rightarrow> Env \<Rightarrow> DLQMessage \<Rightarrow> SweepDecision" where
  "sweepDecision st env m =
     (if shouldRetryMessage env m then RetryCalled (fst (retryMessage st env (dlqId m)))
      else DiscardCalled)"

definition processOne ::
  "DLQState \<times> DLQProcessingStats \<Rightarrow> Env \<times> DLQMessage \<Rightarrow> DLQState \<times> DLQProcessingStats" where
  "processOne acc em =
     (case acc of (st, stats0) \<Rightarrow> case em of (env, m) \<Rightarrow>
        (let stats = stats0\<lparr>processed := processed stats0 + 1\<rparr> in
         if shouldRetryMessage env m then
           (case retryMessage st env (dlqId m) of
              (True, st') \<Rightarrow> (st', stats\<lparr>retried := retried stats + 1\<rparr>)
            | (False, st') \<Rightarrow> (st', stats\<lparr>failed := failed stats + 1\<rparr>))
         else (discardMessage st env m, stats\<lparr>discarded := discarded stats + 1\<rparr>)))"

definition processFailedMessages ::
  "DLQState \<Rightarrow> (Env \<times> DLQMessage) list \<Rightarrow> DLQState \<times> DLQProcessingStats" where
  "processFailedMessages st loaded =
     foldl processOne (st, \<lparr>processed = 0, retried = 0, failed = 0, discarded = 0\<rparr>) loaded"

text \<open>
  The store as the code keeps it: every record sits under the key built from its own
  identifier, since \<open>saveDLQMessageToRedis\<close> is the only writer of these keys.
\<close>

definition keyedByOwnId :: "DLQState \<Rightarrow> bool" where
  "keyedByOwnId st =
     (\<forall>k m ttl. strings (redis st) k = Some (m, ttl) \<longrightarrow> k = dlqKey (dlqId m))"

section \<open>MessageBridge (src/unnamed/part_005) and RedisConsumer (src/services/RedisConsumer.ts)\<close>

text \<open>
  The bridge takes deliveries from the broker queue \<open>whatsapp.messages.bridge\<close>, appends
  them to the Redis stream, and a consumer-group reader hands each stream entry to the
  storage callback. The relay's effect is the list of calls it makes on the broker channel,
  on the stream and on the callback, in the order they are made, together with the state of
  the store the callback writes to.

  A broker delivery carries a content that either parses to an event or does not
  (\<open>JSON.parse\<close> throws). A stream entry carries fields that either convert back to an
  event or do not (one of the two \<open>JSON.parse\<close> calls of the conversion throws).
\<close>

record WhatsAppMessageEvent =
  eventId :: string
  sessionId :: string
  fromUser :: string
  messageType :: string

record BrokerDelivery =
  parsedContent :: "WhatsAppMessageEvent option"

record StreamMessage =
  streamEntryId :: string
  convertedEvent :: "WhatsAppMessageEvent option"

datatype RelayCall =
    BrokerAck
  | BrokerNack bool bool
  | StreamAdd WhatsAppMessageEvent
  | StreamAck string
  | StorageCallback WhatsAppMessageEvent

text \<open>
  What the Redis client does during one call: whether connecting throws, whether the
  client object is missing (\<open>null\<close>), whether \<open>xAdd\<close> or \<open>xAck\<close> throws, and the
  identifier \<open>xAdd\<close> assigns.
\<close>

record StreamEnv =
  streamConnectThrows :: bool
  clientMissing :: bool
  xAddThrows :: bool
  xAckThrows :: bool
  xAddId :: string

text \<open>
  \<open>RedisConsumer.addMessageToStream\<close>: the identifier of the new entry, or \<open>null\<close> when
  anything inside threw. The function catches every failure itself and never throws.
\<close>

definition addMessageToStream ::
  "RelayCall list \<Rightarrow> StreamEnv \<Rightarrow> WhatsAppMessageEvent \<Rightarrow> string option \<times> RelayCall list" where
  "addMessageToStream calls env event =
     (if streamConnectThrows env then (None, calls)
      else if clientMissing env then (None, calls)
      else if xAddThrows env then (None, calls)
      else (Some (xAddId env), calls @ [StreamAdd event]))"

text \<open>
  The callback \<open>MessageBridge.startRabbitConsumer\<close> registers on the queue. The value
  \<open>addMessageToStream\<close> returns is not looked at.
\<close>

definition onBrokerDelivery ::
  "RelayCall list \<Rightarrow> StreamEnv \<Rightarrow> BrokerDelivery option \<Rightarrow> RelayCall list" where
  "onBrokerDelivery calls env msg =
     (case msg of
        None \<Rightarrow> calls
      | Some d \<Rightarrow>
          (case parsedContent d of
             None \<Rightarrow> calls @ [BrokerNack False False]
           | Some messageEvent \<Rightarrow>
               (case addMessageToStream calls env messageEvent of
                  (_, calls1) \<Rightarrow> calls1 @ [BrokerAck])))"

text \<open>
  \<open>xAck\<close> through \<open>this.client?.xAck\<close>: nothing happens when the client is missing; the
  result says whether the call threw.
\<close>

definition xAck :: "RelayCall list \<Rightarrow> StreamEnv \<Rightarrow> string \<Rightarrow> bool \<times> RelayCall list" where
  "xAck calls env entryId =
     (if clientMissing env then (False, calls)
      else if xAckThrows env then (True, calls)
      else (False, calls @ [StreamAck entryId]))"

text \<open>
  \<open>RedisConsumer.processMessage\<close>. The storage callback is a function on the store that
  resolves or throws; it may be unset. The \<open>catch\<close> branch acknowledges the entry, and a
  throw from that acknowledgement is caught and logged.
\<close>

definition processMessageCatch :: "RelayCall list \<Rightarrow> StreamEnv \<Rightarrow> string \<Rightarrow> RelayCall list" where
  "processMessageCatch calls env entryId = snd (xAck calls env entryId)"

definition processMessage ::
  "RelayCall list \<Rightarrow> StreamEnv \<Rightarrow>
   (WhatsAppMessageEvent \<Rightarrow> 'db \<Rightarrow> (unit, 'e) Outcome \<times> 'db) option \<Rightarrow>
   StreamMessage \<Rightarrow> 'db \<Rightarrow> RelayCall list \<times> 'db" where
  "processMessage calls env onMessageCallback msg db =
     (case convertedEvent msg of
        None \<Rightarrow> (processMessageCatch calls env (streamEntryId msg), db)
      | Some whatsappMessage \<Rightarrow>
          (case onMessageCallback of
             None \<Rightarrow>
               (case xAck calls env (streamEntryId msg) of
                  (False, calls1) \<Rightarrow> (calls1, db)
                | (True, calls1) \<Rightarrow> (processMessageCatch calls1 env (streamEntryId msg), db))
           | Some callback \<Rightarrow>
               (case callback whatsappMessage db of
                  (Resolved _, db1) \<Rightarrow>
                    (case xAck (calls @ [StorageCallback whatsappMessage]) env (streamEntryId msg) of
                       (False, calls1) \<Rightarrow> (calls1, db1)
                     | (True, calls1) \<Rightarrow>
                         (processMessageCatch calls1 env (streamEntryId msg), db1))
                | (Thrown _, db1) \<Rightarrow>
                    (processMessageCatch (calls @ [StorageCallback whatsappMessage]) env
                       (streamEntryId msg), db1))))"

text \<open>
  The callback \<open>MessageBridge.startRedisConsumer\<close> hands to the reader: it saves the
  event in the message database and rethrows a failure of the save. The database is the
  list of saved events; \<open>saveThrows\<close> says whether \<open>saveMessage\<close> throws.
\<close>

definition saveMessageCallback ::
  "bool \<Rightarrow> WhatsAppMessageEvent \<Rightarrow> WhatsAppMessageEvent list \<Rightarrow>
     (unit, string) Outcome \<times> WhatsAppMessageEvent list" where
  "saveMessageCallback saveThrows messageEvent db =
     (if saveThrows then (Thrown ''saveMessage failed'', db)
      else (Resolved (), db @ [messageEvent]))"


section \<open>Verified properties: RateLimiter\<close>

lemma canSendMessage_countOk:
  "countOk rl k \<Longrightarrow> countOk (snd (canSendMessage rl now key content)) k"
  by (auto simp: countOk_def canSendMessage_def newEntry_def Let_def split: option.splits)

text \<open>
  Claim C6. \<open>canSendMessage\<close> follows the case analysis of the specification:
  \<^item> no prior entry: allowed, and an entry with count 1 is created;
  \<^item> prior entry inside the window with the same content: rejected as a duplicate, with
    the remaining window time, limiter unchanged;
  \<^item> prior entry inside the window, other content, count at the maximum: rejected as
    rate-limited, with the remaining window time;
  \<^item> prior entry inside the window, other content, count under the maximum: allowed, the
    count is incremented and the stored content and time are replaced;
  \<^item> prior entry whose window has elapsed: allowed, the entry is reset to count 1.
  In particular, with a window of 30000 ms an allowed send followed by the same content less
  than 30000 ms later is rejected as a duplicate (and allowed once 30000 ms have passed), and
  with a maximum of 1 an allowed send followed inside the window by another content is
  rejected as rate-limited.
\<close>

theorem canSendMessage_cases:
  "(rateLimitMap rl key = None \<longrightarrow>
      allowed (fst (canSendMessage rl now key content))
      \<and> rateLimitMap (snd (canSendMessage rl now key content)) key
          = Some \<lparr>lastMessageTime = now, messageCount = 1, lastMessageContent = content\<rparr>)
 \<and> (rateLimitMap rl key = Some e \<and> now - lastMessageTime e < RATE_LIMIT_WINDOW rl
      \<and> lastMessageContent e = content \<longrightarrow>
      canSendMessage rl now key content =
        (\<lparr>allowed = False, reason = Some ''Mensagem duplicada detectada'',
          retryAfter = Some (RATE_LIMIT_WINDOW rl - (now - lastMessageTime e)),
          timeRemaining = Some (RATE_LIMIT_WINDOW rl - (now - lastMessageTime e))\<rparr>, rl))
 \<and> (rateLimitMap rl key = Some e \<and> now - lastMessageTime e < RATE_LIMIT_WINDOW rl
      \<and> lastMessageContent e \<noteq> content \<and> MAX_MESSAGES_PER_WINDOW rl \<le> messageCount e \<longrightarrow>
      canSendMessage rl now key content =
        (\<lparr>allowed = False, reason = Some ''Limite de mensagens atingido'',
          retryAfter = Some (RATE_LIMIT_WINDOW rl - (now - lastMessageTime e)),
          timeRemaining = Some (RATE_LIMIT_WINDOW rl - (now - lastMessageTime e))\<rparr>, rl))
 \<and> (rateLimitMap rl key = Some e \<and> now - lastMessageTime e < RATE_LIMIT_WINDOW rl
      \<and> lastMessageContent e \<noteq> content \<and> messageCount e < MAX_MESSAGES_PER_WINDOW rl \<longrightarrow>
      allowed (fst (canSendMessage rl now key content))
      \<and> rateLimitMap (snd (canSendMessage rl now key content)) key
          = Some \<lparr>lastMessageTime = now, messageCount = messageCount e + 1,
                  lastMessageContent = content\<rparr>)
 \<and> (rateLimitMap rl key = Some e \<and> RATE_LIMIT_WINDOW rl \<le> now - lastMessageTime e \<longrightarrow>
      allowed (fst (canSendMessage rl now key content))
      \<and> rateLimitMap (snd (canSendMessage rl now key content)) key
          = Some \<lparr>lastMessageTime = now, messageCount = 1, lastMessageContent = content\<rparr>)
 \<and> (RATE_LIMIT_WINDOW rl = 30000 \<and> allowed (fst (canSendMessage rl now key content)) \<longrightarrow>
      (later - now < 30000 \<longrightarrow>
         fst (canSendMessage (snd (canSendMessage rl now key content)) later key content)
           = \<lparr>allowed = False, reason = Some ''Mensagem duplicada detectada'',
              retryAfter = Some (30000 - (later - now)),
              timeRemaining = Some (30000 - (later - now))\<rparr>)
      \<and> (30000 \<le> later - now \<longrightarrow>
         allowed (fst (canSendMessage (snd (canSendMessage rl now key content))
                         later key content))))
 \<and> (MAX_MESSAGES_PER_WINDOW rl = 1 \<and> countOk rl key
      \<and> allowed (fst (canSendMessage rl now key content))
      \<and> later - now < RATE_LIMIT_WINDOW rl \<and> other \<noteq> content \<longrightarrow>
      fst (canSendMessage (snd (canSendMessage rl now key content)) later key other)
        = \<lparr>allowed = False, reason = Some ''Limite de mensagens atingido'',
           retryAfter = Some (RATE_LIMIT_WINDOW rl - (later - now)),
           timeRemaining = Some (RATE_LIMIT_WINDOW rl - (later - now))\<rparr>)"
proof -
  have allowedD: "\<And>t c. allowed (fst (canSendMessage rl t key c)) \<Longrightarrow>
      \<exists>e'. rateLimitMap (snd (canSendMessage rl t key c)) key = Some e'
          \<and> lastMessageTime e' = t \<and> lastMessageContent e' = c
          \<and> (countOk rl key \<longrightarrow> 1 \<le> messageCount e')
          \<and> RATE_LIMIT_WINDOW (snd (canSendMessage rl t key c)) = RATE_LIMIT_WINDOW rl
          \<and> MAX_MESSAGES_PER_WINDOW (snd (canSendMessage rl t key c))
              = MAX_MESSAGES_PER_WINDOW rl"
    by (auto simp: canSendMessage_def allowedResult_def rejectedResult_def newEntry_def
        countOk_def Let_def split: option.splits if_splits)
  have inWindow: "\<And>r e' t' c'. rateLimitMap r key = Some e' \<Longrightarrow>
      t' - lastMessageTime e' < RATE_LIMIT_WINDOW r \<Longrightarrow>
      fst (canSendMessage r t' key c') =
        (if lastMessageContent e' = c'
           then rejectedResult duplicateReason (RATE_LIMIT_WINDOW r - (t' - lastMessageTime e'))
         else if MAX_MESSAGES_PER_WINDOW r \<le> messageCount e'
           then rejectedResult rateLimitedReason (RATE_LIMIT_WINDOW r - (t' - lastMessageTime e'))
         else allowedResult)"
    by (simp add: canSendMessage_def Let_def)
  have outWindow: "\<And>r e' t' c'. rateLimitMap r key = Some e' \<Longrightarrow>
      RATE_LIMIT_WINDOW r \<le> t' - lastMessageTime e' \<Longrightarrow>
      allowed (fst (canSendMessage r t' key c'))"
    by (simp add: canSendMessage_def Let_def allowedResult_def)
  have c1: "rateLimitMap rl key = None \<longrightarrow>
      allowed (fst (canSendMessage rl now key content))
      \<and> rateLimitMap (snd (canSendMessage rl now key content)) key
          = Some \<lparr>lastMessageTime = now, messageCount = 1, lastMessageContent = content\<rparr>"
    by (simp add: canSendMessage_def allowedResult_def newEntry_def)
  have c2: "rateLimitMap rl key = Some e \<and> now - lastMessageTime e < RATE_LIMIT_WINDOW rl
      \<and> lastMessageContent e = content \<longrightarrow>
      canSendMessage rl now key content =
        (\<lparr>allowed = False, reason = Some ''Mensagem duplicada detectada'',
          retryAfter = Some (RATE_LIMIT_WINDOW rl - (now - lastMessageTime e)),
          timeRemaining = Some (RATE_LIMIT_WINDOW rl - (now - lastMessageTime e))\<rparr>, rl)"
    by (simp add: canSendMessage_def rejectedResult_def duplicateReason_def Let_def)
  have c3: "rateLimitMap rl key = Some e \<and> now - lastMessageTime e < RATE_LIMIT_WINDOW rl
      \<and> lastMessageContent e \<noteq> content \<and> MAX_MESSAGES_PER_WINDOW rl \<le> messageCount e \<longrightarrow>
      canSendMessage rl now key content =
        (\<lparr>allowed = False, reason = Some ''Limite de mensagens atingido'',
          retryAfter = Some (RATE_LIMIT_WINDOW rl - (now - lastMessageTime e)),
          timeRemaining = Some (RATE_LIMIT_WINDOW rl - (now - lastMessageTime e))\<rparr>, rl)"
    by (simp add: canSendMessage_def rejectedResult_def rateLimitedReason_def Let_def)
  have c4: "rateLimitMap rl key = Some e \<and> now - lastMessageTime e < RATE_LIMIT_WINDOW rl
      \<and> lastMessageContent e \<noteq> content \<and> messageCount e < MAX_MESSAGES_PER_WINDOW rl \<longrightarrow>
      allowed (fst (canSendMessage rl now key content))
      \<and> rateLimitMap (snd (canSendMessage rl now key content)) key
          = Some \<lparr>lastMessageTime = now, messageCount = messageCount e + 1,
                  lastMessageContent = content\<rparr>"
    by (simp add: canSendMessage_def allowedResult_def Let_def)
  have c5: "rateLimitMap rl key = Some e \<and> RATE_LIMIT_WINDOW rl \<le> now - lastMessageTime e \<longrightarrow>
      allowed (fst (canSendMessage rl now key content))
      \<and> rateLimitMap (snd (canSendMessage rl now key content)) key
          = Some \<lparr>lastMessageTime = now, messageCount = 1, lastMessageContent = content\<rparr>"
    by (simp add: canSendMessage_def allowedResult_def newEntry_def Let_def)
  have c6: "RATE_LIMIT_WINDOW rl = 30000 \<and> allowed (fst (canSendMessage rl now key content)) \<longrightarrow>
      (later - now < 30000 \<longrightarrow>
         fst (canSendMessage (snd (canSendMessage rl now key content)) later key content)
           = \<lparr>allowed = False, reason = Some ''Mensagem duplicada detectada'',
              retryAfter = Some (30000 - (later - now)),
              timeRemaining = Some (30000 - (later - now))\<rparr>)
      \<and> (30000 \<le> later - now \<longrightarrow>
         allowed (fst (canSendMessage (snd (canSendMessage rl now key content))
                         later key content)))"
  proof (intro impI conjI)
    assume h: "RATE_LIMIT_WINDOW rl = 30000 \<and> allowed (fst (canSendMessage rl now key content))"
    from allowedD [of now content] h obtain e' where
      st: "rateLimitMap (snd (canSendMessage rl now key content)) key = Some e'"
      and tm: "lastMessageTime e' = now" and ct: "lastMessageContent e' = content"
      and w: "RATE_LIMIT_WINDOW (snd (canSendMessage rl now key content)) = 30000"
      by auto
    { assume "later - now < 30000"
      with inWindow [OF st, of later content] w tm ct
      show "fst (canSendMessage (snd (canSendMessage rl now key content)) later key content)
           = \<lparr>allowed = False, reason = Some ''Mensagem duplicada detectada'',
              retryAfter = Some (30000 - (later - now)),
              timeRemaining = Some (30000 - (later - now))\<rparr>"
        by (simp add: rejectedResult_def duplicateReason_def) }
    { assume "30000 \<le> later - now"
      with outWindow [OF st, of later content] w tm
      show "allowed (fst (canSendMessage (snd (canSendMessage rl now key content))
                         later key content))"
        by simp }
  qed
  have c7: "MAX_MESSAGES_PER_WINDOW rl = 1 \<and> countOk rl key
      \<and> allowed (fst (canSendMessage rl now key content))
      \<and> later - now < RATE_LIMIT_WINDOW rl \<and> other \<noteq> content \<longrightarrow>
      fst (canSendMessage (snd (canSendMessage rl now key content)) later key other)
        = \<lparr>allowed = False, reason = Some ''Limite de mensagens atingido'',
           retryAfter = Some (RATE_LIMIT_WINDOW rl - (later - now)),
           timeRemaining = Some (RATE_LIMIT_WINDOW rl - (later - now))\<rparr>"
  proof
    assume h: "MAX_MESSAGES_PER_WINDOW rl = 1 \<and> countOk rl key
      \<and> allowed (fst (canSendMessage rl now key content))
      \<and> later - now < RATE_LIMIT_WINDOW rl \<and> other \<noteq> content"
    from allowedD [of now content] h obtain e' where
      st: "rateLimitMap (snd (canSendMessage rl now key content)) key = Some e'"
      and tm: "lastMessageTime e' = now" and ct: "lastMessageContent e' = content"
      and n: "1 \<le> messageCount e'"
      and w: "RATE_LIMIT_WINDOW (snd (canSendMessage rl now key content)) = RATE_LIMIT_WINDOW rl"
      and m: "MAX_MESSAGES_PER_WINDOW (snd (canSendMessage rl now key content)) = 1"
      by auto
    from inWindow [OF st, of later other] h w m n tm ct
    show "fst (canSendMessage (snd (canSendMessage rl now key content)) later key other)
        = \<lparr>allowed = False, reason = Some ''Limite de mensagens atingido'',
           retryAfter = Some (RATE_LIMIT_WINDOW rl - (later - now)),
           timeRemaining = Some (RATE_LIMIT_WINDOW rl - (later - now))\<rparr>"
      by (auto simp: rejectedResult_def rateLimitedReason_def)
  qed
  from c1 c2 c3 c4 c5 c6 c7 show ?thesis by blast
qed

text \<open>
  The theorem at a fresh limiter with the source's default configuration (window 30000 ms,
  one message per window): the first send is allowed, the same content one second later is a
  duplicate with 29000 ms remaining, another content is rate-limited, and the same content
  after 30 seconds is allowed again.
\<close>

theorem canSendMessage_cases_witness:
  "rateLimitMap \<lparr>rateLimitMap = Map.empty, RATE_LIMIT_WINDOW = 30000,
                 MAX_MESSAGES_PER_WINDOW = 1\<rparr> ''s1:5511'' = None
   \<and> countOk \<lparr>rateLimitMap = Map.empty, RATE_LIMIT_WINDOW = 30000,
                MAX_MESSAGES_PER_WINDOW = 1\<rparr> ''s1:5511''
   \<and> allowed (fst (canSendMessage \<lparr>rateLimitMap = Map.empty, RATE_LIMIT_WINDOW = 30000,
                 MAX_MESSAGES_PER_WINDOW = 1\<rparr> 1000 ''s1:5511'' ''oi''))
   \<and> fst (canSendMessage (snd (canSendMessage \<lparr>rateLimitMap = Map.empty,
              RATE_LIMIT_WINDOW = 30000, MAX_MESSAGES_PER_WINDOW = 1\<rparr> 1000 ''s1:5511'' ''oi''))
            2000 ''s1:5511'' ''oi'')
       = \<lparr>allowed = False, reason = Some ''Mensagem duplicada detectada'',
          retryAfter = Some 29000, timeRemaining = Some 29000\<rparr>
   \<and> fst (canSendMessage (snd (canSendMessage \<lparr>rateLimitMap = Map.empty,
              RATE_LIMIT_WINDOW = 30000, MAX_MESSAGES_PER_WINDOW = 1\<rparr> 1000 ''s1:5511'' ''oi''))
            2000 ''s1:5511'' ''tudo bem'')
       = \<lparr>allowed = False, reason = Some ''Limite de mensagens atingido'',
          retryAfter = Some 29000, timeRemaining = Some 29000\<rparr>
   \<and> allowed (fst (canSendMessage (snd (canSendMessage \<lparr>rateLimitMap = Map.empty,
              RATE_LIMIT_WINDOW = 30000, MAX_MESSAGES_PER_WINDOW = 1\<rparr> 1000 ''s1:5511'' ''oi''))
            31000 ''s1:5511'' ''oi''))"
  using canSendMessage_cases [where rl = "\<lparr>rateLimitMap = Map.empty, RATE_LIMIT_WINDOW = 30000,
            MAX_MESSAGES_PER_WINDOW = 1\<rparr>" and now = 1000 and key = "''s1:5511''"
            and content = "''oi''" and later = 2000 and other = "''tudo bem''"]
        canSendMessage_cases [where rl = "\<lparr>rateLimitMap = Map.empty, RATE_LIMIT_WINDOW = 30000,
            MAX_MESSAGES_PER_WINDOW = 1\<rparr>" and now = 1000 and key = "''s1:5511''"
            and content = "''oi''" and later = 31000]
  by (simp add: countOk_def)

text \<open>
  Claim C10. A call that returns \<open>allowed = false\<close> (duplicate or rate-limited) leaves the
  limiter exactly as it was: the entry of the key keeps its \<open>lastMessageTime\<close>,
  \<open>messageCount\<close> and \<open>lastMessageContent\<close>, no other entry changes, and every later
  call therefore answers as if the rejected attempt had not been made.
\<close>

theorem canSendMessage_rejected_unchanged:
  "\<not> allowed (fst (canSendMessage rl now key content)) \<Longrightarrow>
     snd (canSendMessage rl now key content) = rl
     \<and> rateLimitMap (snd (canSendMessage rl now key content)) key = rateLimitMap rl key
     \<and> canSendMessage (snd (canSendMessage rl now key content)) later key' content'
         = canSendMessage rl later key' content'
     \<and> (reason (fst (canSendMessage rl now key content)) = Some ''Mensagem duplicada detectada''
        \<or> reason (fst (canSendMessage rl now key content)) = Some ''Limite de mensagens atingido'')"
proof -
  assume rejected: "\<not> allowed (fst (canSendMessage rl now key content))"
  then have same: "snd (canSendMessage rl now key content) = rl"
    by (auto simp: canSendMessage_def allowedResult_def rejectedResult_def Let_def
        split: option.splits if_splits)
  from rejected have why:
    "reason (fst (canSendMessage rl now key content)) = Some ''Mensagem duplicada detectada''
     \<or> reason (fst (canSendMessage rl now key content)) = Some ''Limite de mensagens atingido''"
    by (auto simp: canSendMessage_def allowedResult_def rejectedResult_def Let_def
        duplicateReason_def rateLimitedReason_def split: option.splits if_splits)
  from same why show ?thesis by simp
qed

text \<open>
  The theorem at an entry written at time 1000 with content \<open>oi\<close>: the duplicate sent at
  time 2000 is rejected and the stored entry still carries time 1000 and count 1.
\<close>

theorem canSendMessage_rejected_unchanged_witness:
  "\<not> allowed (fst (canSendMessage
        \<lparr>rateLimitMap = [''s1:5511'' \<mapsto> \<lparr>lastMessageTime = 1000, messageCount = 1,
            lastMessageContent = ''oi''\<rparr>],
         RATE_LIMIT_WINDOW = 30000, MAX_MESSAGES_PER_WINDOW = 1\<rparr> 2000 ''s1:5511'' ''oi''))
   \<and> rateLimitMap (snd (canSendMessage
        \<lparr>rateLimitMap = [''s1:5511'' \<mapsto> \<lparr>lastMessageTime = 1000, messageCount = 1,
            lastMessageContent = ''oi''\<rparr>],
         RATE_LIMIT_WINDOW = 30000, MAX_MESSAGES_PER_WINDOW = 1\<rparr> 2000 ''s1:5511'' ''oi''))
       ''s1:5511''
     = Some \<lparr>lastMessageTime = 1000, messageCount = 1, lastMessageContent = ''oi''\<rparr>"
proof -
  have rejected: "\<not> allowed (fst (canSendMessage
        \<lparr>rateLimitMap = [''s1:5511'' \<mapsto> \<lparr>lastMessageTime = 1000, messageCount = 1,
            lastMessageContent = ''oi''\<rparr>],
         RATE_LIMIT_WINDOW = 30000, MAX_MESSAGES_PER_WINDOW = 1\<rparr> 2000 ''s1:5511'' ''oi''))"
    by (simp add: canSendMessage_def rejectedResult_def)
  from canSendMessage_rejected_unchanged [OF rejected] rejected show ?thesis by simp
qed

section \<open>Verified properties: CircuitBreakerService\<close>

lemma ceilSeconds_bounds:
  "1000 * (ceilSeconds ms - 1) < ms \<and> ms \<le> 1000 * ceilSeconds ms"
proof -
  define q where "q = (- ms) div 1000"
  define r where "r = (- ms) mod 1000"
  have eq: "q * 1000 + r = - ms"
    unfolding q_def r_def by (rule div_mult_mod_eq)
  have lo: "0 \<le> r" and hi: "r < 1000"
    unfolding r_def by simp_all
  have a: "1000 * (- q - 1) < ms"
    using eq hi by (simp add: algebra_simps)
  have b: "ms \<le> 1000 * (- q)"
    using eq lo by (simp add: algebra_simps)
  from a b show ?thesis
    unfolding ceilSeconds_def q_def by (rule conjI)
qed

lemma execute_failure:
  assumes "\<not> (isOpen cb \<and> dateNow w < nextTryTime cb)"
    and "fst (act w) = Thrown (NonNullish e)"
  shows "execute cb act w
     = (Rethrown (NonNullish e), snd (onFailure cb (dateNow (snd (act w))) (NonNullish e)),
        snd (act w))"
  using assms by (cases "act w") (auto simp: execute_def onFailure_def Let_def)

lemma execute_failure_nullish:
  assumes "\<not> (isOpen cb \<and> dateNow w < nextTryTime cb)" and "fst (act w) = Thrown Nullish"
  shows "execute cb act w
     = (TypeErrorThrown,
        cb\<lparr>failureCount := failureCount cb + 1, lastFailureTime := dateNow (snd (act w)),
            totalFailures := totalFailures cb + 1\<rparr>,
        snd (act w))"
  using assms by (cases "act w") (auto simp: execute_def onFailure_def Let_def)

lemma execute_success:
  assumes "\<not> (isOpen cb \<and> dateNow w < nextTryTime cb)" and "fst (act w) = Resolved v"
  shows "execute cb act w = (Returned v, onSuccess cb, snd (act w))"
  using assms by (cases "act w") (auto simp: execute_def)

lemma execute_runs_action:
  assumes "\<not> (isOpen cb \<and> dateNow w < nextTryTime cb)"
  shows "snd (snd (execute cb act w)) = snd (act w)"
  using assms
  by (cases "act w") (auto simp: execute_def split: Outcome.splits prod.splits bool.splits)

lemma onFailure_threshold [simp]: "threshold (snd (onFailure cb now err)) = threshold cb"
  by (simp add: onFailure_def openBreaker_def Let_def split: JsThrown.splits)

lemma onFailure_cooldownTime [simp]: "cooldownTime (snd (onFailure cb now err)) = cooldownTime cb"
  by (simp add: onFailure_def openBreaker_def Let_def split: JsThrown.splits)

lemma onFailure_failureCount [simp]:
  "failureCount (snd (onFailure cb now err)) = failureCount cb + 1"
  by (simp add: onFailure_def openBreaker_def Let_def split: JsThrown.splits)

lemma onFailure_isOpen:
  "isOpen (snd (onFailure cb now (NonNullish e)))
     = (isOpen cb \<or> threshold cb \<le> failureCount cb + 1)"
  by (simp add: onFailure_def openBreaker_def Let_def)

lemma onFailure_nextTryTime:
  "threshold cb \<le> failureCount cb + 1 \<Longrightarrow>
     nextTryTime (snd (onFailure cb now (NonNullish e))) = now + cooldownTime cb"
  by (simp add: onFailure_def openBreaker_def Let_def)

text \<open>
  What holds of the breaker. For a breaker with threshold 3 that is closed with no counted
  failure (as it is when created), three consecutive executions whose actions throw values
  other than \<open>undefined\<close> and \<open>null\<close> leave the breaker open with \<open>nextTryTime\<close>
  equal to the clock at the third failure plus the cooldown (the first two leave it
  closed). While the breaker is open and the clock is before \<open>nextTryTime\<close>,
  \<open>execute\<close> gives the breaker's own error carrying the remaining cooldown rounded up to
  whole seconds, and neither the world nor the breaker changes: the action is not invoked.
  An \<open>execute\<close> at or after \<open>nextTryTime\<close> runs the action, and when the action
  resolves the breaker is closed with \<open>failureCount = 0\<close> in the same step.
\<close>

lemma circuit_breaker_transition_non_nullish:
  "(threshold cb = 3 \<and> failureCount cb = 0 \<and> \<not> isOpen cb
      \<and> fst (a1 w) = Thrown (NonNullish e1)
      \<and> fst (a2 (snd (a1 w))) = Thrown (NonNullish e2)
      \<and> fst (a3 (snd (a2 (snd (a1 w))))) = Thrown (NonNullish e3) \<longrightarrow>
    (case execute cb a1 w of (r1, cb1, w1) \<Rightarrow>
     case execute cb1 a2 w1 of (r2, cb2, w2) \<Rightarrow>
     case execute cb2 a3 w2 of (r3, cb3, w3) \<Rightarrow>
       r1 = Rethrown (NonNullish e1) \<and> r2 = Rethrown (NonNullish e2)
       \<and> r3 = Rethrown (NonNullish e3)
       \<and> \<not> isOpen cb1 \<and> \<not> isOpen cb2
       \<and> isOpen cb3 \<and> failureCount cb3 = 3
       \<and> w3 = snd (a3 (snd (a2 (snd (a1 w)))))
       \<and> nextTryTime cb3 = dateNow w3 + cooldownTime cb))
 \<and> (isOpen cb \<and> dateNow w < nextTryTime cb \<longrightarrow>
      execute cb act w =
        (CircuitOpenError (serviceName cb) (ceilSeconds (nextTryTime cb - dateNow w)), cb, w)
      \<and> 1 \<le> ceilSeconds (nextTryTime cb - dateNow w)
      \<and> 1000 * (ceilSeconds (nextTryTime cb - dateNow w) - 1) < nextTryTime cb - dateNow w
      \<and> nextTryTime cb - dateNow w \<le> 1000 * ceilSeconds (nextTryTime cb - dateNow w))
 \<and> (nextTryTime cb \<le> dateNow w \<longrightarrow>
      snd (snd (execute cb act w)) = snd (act w)
      \<and> (fst (act w) = Resolved v \<longrightarrow>
            fst (execute cb act w) = Returned v
            \<and> \<not> isOpen (fst (snd (execute cb act w)))
            \<and> failureCount (fst (snd (execute cb act w))) = 0))"
proof (intro conjI impI)
  assume h: "threshold cb = 3 \<and> failureCount cb = 0 \<and> \<not> isOpen cb
      \<and> fst (a1 w) = Thrown (NonNullish e1)
      \<and> fst (a2 (snd (a1 w))) = Thrown (NonNullish e2)
      \<and> fst (a3 (snd (a2 (snd (a1 w))))) = Thrown (NonNullish e3)"
  define w1 where "w1 = snd (a1 w)"
  define w2 where "w2 = snd (a2 w1)"
  define w3 where "w3 = snd (a3 w2)"
  define cb1 where "cb1 = snd (onFailure cb (dateNow w1) (NonNullish e1))"
  define cb2 where "cb2 = snd (onFailure cb1 (dateNow w2) (NonNullish e2))"
  define cb3 where "cb3 = snd (onFailure cb2 (dateNow w3) (NonNullish e3))"
  from h have t: "threshold cb = 3" and f0: "failureCount cb = 0" and o0: "\<not> isOpen cb"
    and th1: "fst (a1 w) = Thrown (NonNullish e1)"
    and th2: "fst (a2 w1) = Thrown (NonNullish e2)"
    and th3: "fst (a3 w2) = Thrown (NonNullish e3)"
    by (simp_all add: w1_def w2_def)
  from o0 th1 have x1: "execute cb a1 w = (Rethrown (NonNullish e1), cb1, w1)"
    by (simp add: execute_failure cb1_def w1_def)
  have f1: "failureCount cb1 = 1" and t1: "threshold cb1 = 3" and o1: "\<not> isOpen cb1"
    using t f0 o0 by (simp_all add: cb1_def onFailure_isOpen)
  from o1 th2 have x2: "execute cb1 a2 w1 = (Rethrown (NonNullish e2), cb2, w2)"
    by (simp add: execute_failure cb2_def w2_def)
  have f2: "failureCount cb2 = 2" and t2: "threshold cb2 = 3" and o2: "\<not> isOpen cb2"
    using t1 f1 o1 by (simp_all add: cb2_def onFailure_isOpen)
  from o2 th3 have x3: "execute cb2 a3 w2 = (Rethrown (NonNullish e3), cb3, w3)"
    by (simp add: execute_failure cb3_def w3_def)
  have f3: "failureCount cb3 = 3" and o3: "isOpen cb3"
    using t2 f2 by (simp_all add: cb3_def onFailure_isOpen)
  have "cooldownTime cb2 = cooldownTime cb"
    by (simp add: cb2_def cb1_def)
  then have n3: "nextTryTime cb3 = dateNow w3 + cooldownTime cb"
    using t2 f2 by (simp add: cb3_def onFailure_nextTryTime)
  have w3': "w3 = snd (a3 (snd (a2 (snd (a1 w)))))"
    by (simp add: w3_def w2_def w1_def)
  show "case execute cb a1 w of (r1, cb1, w1) \<Rightarrow>
     case execute cb1 a2 w1 of (r2, cb2, w2) \<Rightarrow>
     case execute cb2 a3 w2 of (r3, cb3, w3) \<Rightarrow>
       r1 = Rethrown (NonNullish e1) \<and> r2 = Rethrown (NonNullish e2)
       \<and> r3 = Rethrown (NonNullish e3)
       \<and> \<not> isOpen cb1 \<and> \<not> isOpen cb2
       \<and> isOpen cb3 \<and> failureCount cb3 = 3
       \<and> w3 = snd (a3 (snd (a2 (snd (a1 w)))))
       \<and> nextTryTime cb3 = dateNow w3 + cooldownTime cb"
    unfolding x1 x2 x3 prod.case using o1 o2 o3 f3 n3 w3' by blast
next
  assume "isOpen cb \<and> dateNow w < nextTryTime cb"
  then show "execute cb act w =
        (CircuitOpenError (serviceName cb) (ceilSeconds (nextTryTime cb - dateNow w)), cb, w)"
    by (simp add: execute_def)
next
  assume "isOpen cb \<and> dateNow w < nextTryTime cb"
  with ceilSeconds_bounds [of "nextTryTime cb - dateNow w"]
  show "1 \<le> ceilSeconds (nextTryTime cb - dateNow w)" by linarith
next
  show "1000 * (ceilSeconds (nextTryTime cb - dateNow w) - 1) < nextTryTime cb - dateNow w"
    using ceilSeconds_bounds by blast
next
  show "nextTryTime cb - dateNow w \<le> 1000 * ceilSeconds (nextTryTime cb - dateNow w)"
    using ceilSeconds_bounds by blast
next
  assume "nextTryTime cb \<le> dateNow w"
  then show "snd (snd (execute cb act w)) = snd (act w)"
    by (simp add: execute_runs_action)
next
  assume "nextTryTime cb \<le> dateNow w" and "fst (act w) = Resolved v"
  then have "execute cb act w = (Returned v, onSuccess cb, snd (act w))"
    by (simp add: execute_success)
  then show "fst (execute cb act w) = Returned v"
    and "\<not> isOpen (fst (snd (execute cb act w)))"
    and "failureCount (fst (snd (execute cb act w))) = 0"
    by (simp_all add: onSuccess_def)
qed

text \<open>
  The lemma at a breaker created with threshold 3 and a cooldown of 30000 ms, with actions
  that take 10 ms each and reject with an error object: failures ending at 1010, 1020 and
  1030 open it until 31030; a call at 2000 on the open breaker is rejected with 30 s
  remaining (29030 ms rounded up).
\<close>

lemma circuit_breaker_transition_non_nullish_example:
  "(case execute (newCircuitBreaker \<lparr>cfgThreshold = 3, cfgCooldownTime = 30000,
                     cfgServiceName = ''WhatsApp''\<rparr>)
           (rejectingWith (NonNullish ''boom'') 10)
           \<lparr>dateNow = 1000, outside = ()\<rparr> of (r1, cb1, w1) \<Rightarrow>
     case execute cb1 (rejectingWith (NonNullish ''boom'') 10) w1 of (r2, cb2, w2) \<Rightarrow>
     case execute cb2 (rejectingWith (NonNullish ''boom'') 10) w2 of (r3, cb3, w3) \<Rightarrow>
       r3 = Rethrown (NonNullish ''boom'')
       \<and> \<not> isOpen cb1 \<and> \<not> isOpen cb2 \<and> isOpen cb3 \<and> nextTryTime cb3 = 31030)
   \<and> execute \<lparr>failureCount = 3, threshold = 3, cooldownTime = 30000, isOpen = True,
                nextTryTime = 31030, serviceName = ''WhatsApp'', lastFailureTime = 1030,
                totalFailures = 3, totalSuccesses = 0\<rparr>
         (rejectingWith (NonNullish ''boom'') 10)
         \<lparr>dateNow = 2000, outside = ()\<rparr>
       = (CircuitOpenError ''WhatsApp'' 30,
          \<lparr>failureCount = 3, threshold = 3, cooldownTime = 30000, isOpen = True,
                nextTryTime = 31030, serviceName = ''WhatsApp'', lastFailureTime = 1030,
                totalFailures = 3, totalSuccesses = 0\<rparr>,
          \<lparr>dateNow = 2000, outside = ()\<rparr>)"
  using circuit_breaker_transition_non_nullish [where cb = "(newCircuitBreaker \<lparr>cfgThreshold = 3, cfgCooldownTime = 30000,
                     cfgServiceName = ''WhatsApp''\<rparr>)"
          and w = "\<lparr>dateNow = 1000, outside = ()\<rparr>"
          and ?a1.0 = "rejectingWith (NonNullish ''boom'') 10"
          and ?a2.0 = "rejectingWith (NonNullish ''boom'') 10"
          and ?a3.0 = "rejectingWith (NonNullish ''boom'') 10"
          and ?e1.0 = "''boom''" and ?e2.0 = "''boom''" and ?e3.0 = "''boom''"]
  by (simp add: newCircuitBreaker_def ceilSeconds_def execute_def onFailure_def openBreaker_def
        onSuccess_def rejectingWith_def Let_def)

text \<open>
  Claim C2 asks that three consecutive failed executions open a breaker created with
  threshold 3. The code does not do so when the action rejects with \<open>undefined\<close> (or
  \<open>null\<close>): each failure is counted, the log line of \<open>onFailure\<close> then throws a
  \<open>TypeError\<close> on \<open>error.message\<close>, and the threshold test below it is never
  reached. After three such failures \<open>failureCount\<close> is 3 and the breaker is still
  closed with \<open>nextTryTime = 0\<close>; each call rejects with the \<open>TypeError\<close> instead of
  the action's value, and a fourth call right after is let through to the action.
\<close>

theorem circuit_breaker_nullish_rejection:
  "(case execute (newCircuitBreaker \<lparr>cfgThreshold = 3, cfgCooldownTime = 30000,
                     cfgServiceName = ''WhatsApp''\<rparr>)
           (rejectingWith (Nullish :: string JsThrown) 10)
           \<lparr>dateNow = 1000, outside = ()\<rparr> of (r1, cb1, w1) \<Rightarrow>
     case execute cb1 (rejectingWith Nullish 10) w1 of (r2, cb2, w2) \<Rightarrow>
     case execute cb2 (rejectingWith Nullish 10) w2 of (r3, cb3, w3) \<Rightarrow>
     case execute cb3 (rejectingWith Nullish 10) w3 of (r4, cb4, w4) \<Rightarrow>
       r1 = TypeErrorThrown \<and> r2 = TypeErrorThrown \<and> r3 = TypeErrorThrown
       \<and> threshold cb3 = 3 \<and> failureCount cb3 = 3
       \<and> \<not> isOpen cb3 \<and> nextTryTime cb3 = 0
       \<and> dateNow w3 = 1030
       \<and> r4 = TypeErrorThrown \<and> dateNow w4 = 1040 \<and> failureCount cb4 = 4 \<and> \<not> isOpen cb4)"
  by (simp add: newCircuitBreaker_def execute_def onFailure_def rejectingWith_def Let_def)

section \<open>Verified properties: RabbitMQErrorHandler\<close>

text \<open>Every branch of the message chain that matches sets a type other than Unknown.\<close>

lemma analyzeMessage_unknown_imp:
  "errorType (analyzeMessage m info) = UNKNOWN_ERROR \<longrightarrow> analyzeMessage m info = info"
  unfolding analyzeMessage_def Let_def
  by (cases "messageTruthy m") simp_all

lemma analyzeMessage_unknown:
  "errorType (analyzeMessage m info) = UNKNOWN_ERROR \<Longrightarrow> analyzeMessage m info = info"
  using analyzeMessage_unknown_imp [of m info] by blast

lemma analyzeCode_cases:
  "codeTruthy c \<Longrightarrow>
     errorType (analyzeCode c (initialErrorInfo e ctx)) \<noteq> UNKNOWN_ERROR
     \<or> (retryable (analyzeCode c (initialErrorInfo e ctx))
        \<and> shouldReconnect (analyzeCode c (initialErrorInfo e ctx))
        \<and> shouldUseDLQ (analyzeCode c (initialErrorInfo e ctx))
        \<and> retryDelay (analyzeCode c (initialErrorInfo e ctx)) = None)"
  by (simp add: analyzeCode_def initialErrorInfo_def Let_def)

lemma analyzeCode_unknown_truthy:
  "codeTruthy c \<Longrightarrow> errorType (analyzeCode c (initialErrorInfo e ctx)) = UNKNOWN_ERROR \<Longrightarrow>
     retryable (analyzeCode c (initialErrorInfo e ctx))
     \<and> shouldReconnect (analyzeCode c (initialErrorInfo e ctx))
     \<and> shouldUseDLQ (analyzeCode c (initialErrorInfo e ctx))
     \<and> retryDelay (analyzeCode c (initialErrorInfo e ctx)) = None"
  using analyzeCode_cases [of c e ctx] by blast

lemma analyzeCode_falsy:
  "\<not> codeTruthy c \<Longrightarrow> analyzeCode c info = info"
  by (simp add: analyzeCode_def)

lemma unknown_truthy:
  assumes "errorType (analyzeError e ctx) = UNKNOWN_ERROR" and "codeTruthy (errCode e)"
  shows "retryable (analyzeError e ctx) \<and> shouldReconnect (analyzeError e ctx)
         \<and> shouldUseDLQ (analyzeError e ctx) \<and> retryDelay (analyzeError e ctx) = None"
proof -
  from assms(1) have same: "analyzeError e ctx = analyzeCode (errCode e) (initialErrorInfo e ctx)"
    unfolding analyzeError_def by (rule analyzeMessage_unknown)
  with assms(1) have "errorType (analyzeCode (errCode e) (initialErrorInfo e ctx)) = UNKNOWN_ERROR"
    by simp
  from analyzeCode_unknown_truthy [OF assms(2) this] same show ?thesis by simp
qed

lemma unknown_falsy:
  assumes "errorType (analyzeError e ctx) = UNKNOWN_ERROR" and "\<not> codeTruthy (errCode e)"
  shows "\<not> retryable (analyzeError e ctx) \<and> \<not> shouldReconnect (analyzeError e ctx)
         \<and> \<not> shouldUseDLQ (analyzeError e ctx)"
proof -
  from assms(1) have "analyzeError e ctx = analyzeCode (errCode e) (initialErrorInfo e ctx)"
    unfolding analyzeError_def by (rule analyzeMessage_unknown)
  with assms(2) have "analyzeError e ctx = initialErrorInfo e ctx"
    by (simp add: analyzeCode_falsy)
  then show ?thesis by (simp add: initialErrorInfo_def)
qed

text \<open>
  Claim C8, as stated, fails: an error with no code and an unrecognised message is classified
  Unknown and not retryable, and with the whole retry budget left (0 of 3 retries used) the
  resolved action is discard; the consumer then drops the delivery with a negative
  acknowledgement although no dead-letter publish failed (none was attempted).
\<close>

theorem unknown_error_retry_counterexample:
  "errorType (analyzeError \<lparr>errCode = NoCode, errMessage = Some ''boom''\<rparr> ''send-command'')
     = UNKNOWN_ERROR
   \<and> \<not> retryable (analyzeError \<lparr>errCode = NoCode, errMessage = Some ''boom''\<rparr> ''send-command'')
   \<and> (0::nat) < cfgMaxRetries \<lparr>cfgMaxRetries = 3, cfgRetryDelay = 1000,
                                 cfgExponentialBackoff = True, cfgDlqEnabled = True\<rparr>
   \<and> action (handleError \<lparr>cfgMaxRetries = 3, cfgRetryDelay = 1000, cfgExponentialBackoff = True,
                cfgDlqEnabled = True\<rparr>
               \<lparr>errCode = NoCode, errMessage = Some ''boom''\<rparr> ''send-command'' 0) = Discard
   \<and> handleMessageError defaultConsumerConfig
        \<lparr>msgContent = ''{}'', msgHeaders = [], consumedFrom = ''whatsapp.send.commands''\<rparr>
        (Some \<lparr>errCode = NoCode, errMessage = Some ''boom''\<rparr>) ''send-command'' 1000 False
       = ChannelCalls [Nack False False]"
  by code_simp

text \<open>
  Claim C8, amended. For every error classified Unknown: when it carries a (truthy) code it is
  classified retryable with \<open>shouldReconnect\<close> and \<open>shouldUseDLQ\<close> set, and the resolved
  action is reconnect, for every retry count, with the configured delay doubled once per
  retry made when exponential backoff is on; when it carries no truthy code it is classified
  not retryable and not dead-letter eligible, and the resolved action is discard. An Unknown
  error never resolves to retry; discard is a direct outcome of the classification.
\<close>

theorem unknown_error_action:
  "errorType (analyzeError e ctx) = UNKNOWN_ERROR \<Longrightarrow>
     (codeTruthy (errCode e) \<longrightarrow>
        retryable (analyzeError e ctx) \<and> shouldReconnect (analyzeError e ctx)
        \<and> shouldUseDLQ (analyzeError e ctx)
        \<and> action (handleError config e ctx n) = Reconnect
        \<and> delay (handleError config e ctx n)
            = (if cfgExponentialBackoff config then cfgRetryDelay config * 2 ^ n
               else cfgRetryDelay config))
   \<and> (\<not> codeTruthy (errCode e) \<longrightarrow>
        \<not> retryable (analyzeError e ctx) \<and> \<not> shouldUseDLQ (analyzeError e ctx)
        \<and> action (handleError config e ctx n) = Discard)
   \<and> action (handleError config e ctx n) \<noteq> Retry"
proof -
  assume u: "errorType (analyzeError e ctx) = UNKNOWN_ERROR"
  have truthy: "codeTruthy (errCode e) \<longrightarrow>
        retryable (analyzeError e ctx) \<and> shouldReconnect (analyzeError e ctx)
        \<and> shouldUseDLQ (analyzeError e ctx)
        \<and> action (handleError config e ctx n) = Reconnect
        \<and> delay (handleError config e ctx n)
            = (if cfgExponentialBackoff config then cfgRetryDelay config * 2 ^ n
               else cfgRetryDelay config)"
  proof
    assume "codeTruthy (errCode e)"
    from unknown_truthy [OF u this] u show "retryable (analyzeError e ctx) \<and> shouldReconnect (analyzeError e ctx)
        \<and> shouldUseDLQ (analyzeError e ctx)
        \<and> action (handleError config e ctx n) = Reconnect
        \<and> delay (handleError config e ctx n)
            = (if cfgExponentialBackoff config then cfgRetryDelay config * 2 ^ n
               else cfgRetryDelay config)"
      by (simp add: handleError_def calculateRetryDelay_def Let_def)
  qed
  have falsy: "\<not> codeTruthy (errCode e) \<longrightarrow>
        \<not> retryable (analyzeError e ctx) \<and> \<not> shouldUseDLQ (analyzeError e ctx)
        \<and> action (handleError config e ctx n) = Discard"
  proof
    assume "\<not> codeTruthy (errCode e)"
    from unknown_falsy [OF u this] u show "\<not> retryable (analyzeError e ctx) \<and> \<not> shouldUseDLQ (analyzeError e ctx)
        \<and> action (handleError config e ctx n) = Discard"
      by (simp add: handleError_def shouldRetry_def Let_def)
  qed
  from truthy falsy show ?thesis by auto
qed

text \<open>
  The theorem at an error with the unrecognised code 500 (reconnect after 1000 ms times
  \<open>2^2\<close> on the third attempt) and at an error with no code (discard).
\<close>

theorem unknown_error_action_witness:
  "errorType (analyzeError \<lparr>errCode = NumCode 500, errMessage = Some ''boom''\<rparr> ''send-command'')
     = UNKNOWN_ERROR
   \<and> codeTruthy (errCode \<lparr>errCode = NumCode 500, errMessage = Some ''boom''\<rparr>)
   \<and> action (handleError \<lparr>cfgMaxRetries = 3, cfgRetryDelay = 1000, cfgExponentialBackoff = True,
                cfgDlqEnabled = True\<rparr>
               \<lparr>errCode = NumCode 500, errMessage = Some ''boom''\<rparr> ''send-command'' 2) = Reconnect
   \<and> delay (handleError \<lparr>cfgMaxRetries = 3, cfgRetryDelay = 1000, cfgExponentialBackoff = True,
                cfgDlqEnabled = True\<rparr>
               \<lparr>errCode = NumCode 500, errMessage = Some ''boom''\<rparr> ''send-command'' 2) = 4000
   \<and> errorType (analyzeError \<lparr>errCode = NoCode, errMessage = None\<rparr> ''send-command'')
       = UNKNOWN_ERROR
   \<and> \<not> codeTruthy (errCode \<lparr>errCode = NoCode, errMessage = None\<rparr>)
   \<and> action (handleError \<lparr>cfgMaxRetries = 3, cfgRetryDelay = 1000, cfgExponentialBackoff = True,
                cfgDlqEnabled = True\<rparr>
               \<lparr>errCode = NoCode, errMessage = None\<rparr> ''send-command'' 2) = Discard"
proof -
  have u1: "errorType (analyzeError \<lparr>errCode = NumCode 500, errMessage = Some ''boom''\<rparr>
              ''send-command'') = UNKNOWN_ERROR"
    by code_simp
  have u2: "errorType (analyzeError \<lparr>errCode = NoCode, errMessage = None\<rparr> ''send-command'')
              = UNKNOWN_ERROR"
    by code_simp
  from unknown_error_action [OF u1, where config = "\<lparr>cfgMaxRetries = 3, cfgRetryDelay = 1000,
          cfgExponentialBackoff = True, cfgDlqEnabled = True\<rparr>" and n = 2]
       unknown_error_action [OF u2, where config = "\<lparr>cfgMaxRetries = 3, cfgRetryDelay = 1000,
          cfgExponentialBackoff = True, cfgDlqEnabled = True\<rparr>" and n = 2]
       u1 u2
  show ?thesis by simp
qed

section \<open>Verified properties: UnifiedConsumer.handleMessageError\<close>














section \<open>Verified properties: DeadLetterQueue\<close>

lemma getDLQMessageFromRedis_eq:
  "getDLQMessageFromRedis st messageId = Some m
     \<longleftrightarrow> (\<exists>ttl. strings (redis st) (dlqKey messageId) = Some (m, ttl))"
  by (auto simp: getDLQMessageFromRedis_def)

lemma retryMessage_refuses:
  "redisGetThrows env \<or> getDLQMessageFromRedis st messageId = None
   \<or> (\<exists>m. getDLQMessageFromRedis st messageId = Some m \<and> maxRetries m \<le> retryCount m) \<Longrightarrow>
     retryMessage st env messageId = (False, st)"
  by (auto simp: retryMessage_def)

lemma retryMessage_proceeds:
  assumes "\<not> redisGetThrows env" and "\<not> redisSetThrows env"
    and "getDLQMessageFromRedis st messageId = Some m"
    and "retryCount m < maxRetries m"
  shows "retryMessage st env messageId =
     (publishOutcome env = PublishedTrue,
      doPublish
        (saveDLQMessageToRedis st
           (m\<lparr>retryCount := retryCount m + 1, lastErrorTimestamp := envNow env\<rparr>))
        (retryPublishCall env
           (m\<lparr>retryCount := retryCount m + 1, lastErrorTimestamp := envNow env\<rparr>) messageId)
        (publishOutcome env))"
  using assms by (simp add: retryMessage_def Let_def)

lemma stored_after_save:
  "strings (redis (doPublish (saveDLQMessageToRedis st m) call outcome)) (dlqKey (dlqId m))
     = Some (m, dlqTtl)"
  by (simp add: doPublish_def saveDLQMessageToRedis_def)

lemma effects_after_save:
  "effects (doPublish (saveDLQMessageToRedis st m) call outcome)
     = effects st @ [RedisSetEx (dlqKey (dlqId m)) m dlqTtl, PublishAttempt call outcome]"
  by (simp add: doPublish_def saveDLQMessageToRedis_def)

lemma lists_after_save:
  "lists (redis (doPublish (saveDLQMessageToRedis st m) call outcome)) = lists (redis st)"
  by (simp add: doPublish_def saveDLQMessageToRedis_def)

text \<open>
  Records stay under their own keys through parking, retrying and discarding, so a record
  found under an identifier carries that identifier.
\<close>

lemma keyedByOwnId_found:
  "keyedByOwnId st \<Longrightarrow> getDLQMessageFromRedis st messageId = Some m \<Longrightarrow> dlqId m = messageId"
  by (auto simp: keyedByOwnId_def getDLQMessageFromRedis_def dlqKey_def)

lemma keyedByOwnId_save:
  "keyedByOwnId st \<Longrightarrow> keyedByOwnId (doPublish (saveDLQMessageToRedis st m) call outcome)"
  by (auto simp: keyedByOwnId_def doPublish_def saveDLQMessageToRedis_def)

lemma keyedByOwnId_sendToDeadLetterQueue:
  "keyedByOwnId st \<Longrightarrow>
     keyedByOwnId (sendToDeadLetterQueue st env originalMessage rk err count inst)"
  by (simp add: sendToDeadLetterQueue_def keyedByOwnId_save Let_def)

lemma keyedByOwnId_retryMessage:
  "keyedByOwnId st \<Longrightarrow> keyedByOwnId (snd (retryMessage st env messageId))"
  by (simp add: retryMessage_def keyedByOwnId_save Let_def split: option.splits)

lemma keyedByOwnId_discardMessage:
  "keyedByOwnId st \<Longrightarrow> keyedByOwnId (discardMessage st env m)"
  by (auto simp: keyedByOwnId_def discardMessage_def archiveMessage_def clientDefines_def
        redisDel_def Let_def split: if_splits)

text \<open>
  Claim C5. \<open>retryMessage(id)\<close> returns false and leaves the store and the broker untouched
  when the record is missing or its \<open>retryCount\<close> has reached \<open>maxRetries\<close>. Otherwise
  (the record is stored under its own identifier, and the store answers the read and the
  write) the record is written back with \<open>retryCount\<close> incremented and
  \<open>lastErrorTimestamp\<close> set to the current time, the original payload is published to the
  record's original exchange with its original routing key, and the returned value says
  whether that publish returned true.
\<close>

theorem retryMessage_contract:
  "\<not> redisGetThrows env \<Longrightarrow>
     (getDLQMessageFromRedis st messageId = None \<longrightarrow> retryMessage st env messageId = (False, st))
   \<and> (getDLQMessageFromRedis st messageId = Some m \<and> maxRetries m \<le> retryCount m \<longrightarrow>
        retryMessage st env messageId = (False, st))
   \<and> (getDLQMessageFromRedis st messageId = Some m \<and> retryCount m < maxRetries m
        \<and> dlqId m = messageId \<and> \<not> redisSetThrows env \<longrightarrow>
        fst (retryMessage st env messageId) = (publishOutcome env = PublishedTrue)
        \<and> getDLQMessageFromRedis (snd (retryMessage st env messageId)) messageId
            = Some (m\<lparr>retryCount := retryCount m + 1, lastErrorTimestamp := envNow env\<rparr>)
        \<and> effects (snd (retryMessage st env messageId))
            = effects st @
              [RedisSetEx (dlqKey messageId)
                 (m\<lparr>retryCount := retryCount m + 1, lastErrorTimestamp := envNow env\<rparr>) dlqTtl,
               PublishAttempt
                 \<lparr>exchange = originalExchange m, routingKey = originalRoutingKey m,
                  publishedBody = PayloadBody (payload m),
                  publishedMessageId = envNewId env,
                  publishedHeaders = [(''x-retry-attempt'', HNum (retryCount m + 1)),
                                      (''x-dlq-message-id'', HStr messageId)]\<rparr>
                 (publishOutcome env)])"
proof -
  assume g: "\<not> redisGetThrows env"
  have missing: "getDLQMessageFromRedis st messageId = None \<longrightarrow>
      retryMessage st env messageId = (False, st)"
    by (simp add: retryMessage_refuses)
  have exhausted: "getDLQMessageFromRedis st messageId = Some m \<and> maxRetries m \<le> retryCount m \<longrightarrow>
      retryMessage st env messageId = (False, st)"
    using retryMessage_refuses [of env st messageId] by blast
  have proceeds: "getDLQMessageFromRedis st messageId = Some m \<and> retryCount m < maxRetries m
        \<and> dlqId m = messageId \<and> \<not> redisSetThrows env \<longrightarrow>
        fst (retryMessage st env messageId) = (publishOutcome env = PublishedTrue)
        \<and> getDLQMessageFromRedis (snd (retryMessage st env messageId)) messageId
            = Some (m\<lparr>retryCount := retryCount m + 1, lastErrorTimestamp := envNow env\<rparr>)
        \<and> effects (snd (retryMessage st env messageId))
            = effects st @
              [RedisSetEx (dlqKey messageId)
                 (m\<lparr>retryCount := retryCount m + 1, lastErrorTimestamp := envNow env\<rparr>) dlqTtl,
               PublishAttempt
                 \<lparr>exchange = originalExchange m, routingKey = originalRoutingKey m,
                  publishedBody = PayloadBody (payload m),
                  publishedMessageId = envNewId env,
                  publishedHeaders = [(''x-retry-attempt'', HNum (retryCount m + 1)),
                                      (''x-dlq-message-id'', HStr messageId)]\<rparr>
                 (publishOutcome env)]"
  proof
    assume h: "getDLQMessageFromRedis st messageId = Some m \<and> retryCount m < maxRetries m
        \<and> dlqId m = messageId \<and> \<not> redisSetThrows env"
    define m' where "m' = m\<lparr>retryCount := retryCount m + 1, lastErrorTimestamp := envNow env\<rparr>"
    have id': "dlqId m' = messageId" using h by (simp add: m'_def)
    from g h have r: "retryMessage st env messageId =
       (publishOutcome env = PublishedTrue,
        doPublish (saveDLQMessageToRedis st m') (retryPublishCall env m' messageId)
          (publishOutcome env))"
      unfolding m'_def by (simp add: retryMessage_proceeds)
    have s: "getDLQMessageFromRedis (snd (retryMessage st env messageId)) messageId = Some m'"
      using stored_after_save [of st m'] id'
      by (simp add: r getDLQMessageFromRedis_def)
    have c: "retryPublishCall env m' messageId =
        \<lparr>exchange = originalExchange m, routingKey = originalRoutingKey m,
         publishedBody = PayloadBody (payload m),
         publishedMessageId = envNewId env,
         publishedHeaders = [(''x-retry-attempt'', HNum (retryCount m + 1)),
                             (''x-dlq-message-id'', HStr messageId)]\<rparr>"
      by (simp add: retryPublishCall_def m'_def)
    have e: "effects (snd (retryMessage st env messageId))
        = effects st @ [RedisSetEx (dlqKey messageId) m' dlqTtl,
                        PublishAttempt (retryPublishCall env m' messageId) (publishOutcome env)]"
      using effects_after_save [of st m'] id' by (simp add: r)
    from r s e c show "fst (retryMessage st env messageId) = (publishOutcome env = PublishedTrue)
        \<and> getDLQMessageFromRedis (snd (retryMessage st env messageId)) messageId
            = Some (m\<lparr>retryCount := retryCount m + 1, lastErrorTimestamp := envNow env\<rparr>)
        \<and> effects (snd (retryMessage st env messageId))
            = effects st @
              [RedisSetEx (dlqKey messageId)
                 (m\<lparr>retryCount := retryCount m + 1, lastErrorTimestamp := envNow env\<rparr>) dlqTtl,
               PublishAttempt
                 \<lparr>exchange = originalExchange m, routingKey = originalRoutingKey m,
                  publishedBody = PayloadBody (payload m),
                  publishedMessageId = envNewId env,
                  publishedHeaders = [(''x-retry-attempt'', HNum (retryCount m + 1)),
                                      (''x-dlq-message-id'', HStr messageId)]\<rparr>
                 (publishOutcome env)]"
      by (simp add: m'_def)
  qed
  from missing exhausted proceeds show ?thesis by blast
qed

text \<open>
  The theorem at a store holding one record with one retry made of three: with a publish
  that returns true the call returns true and the stored record carries two retries and
  the new time; for an identifier the store does not hold the call returns false and
  changes nothing.
\<close>

theorem retryMessage_contract_witness:
  "getDLQMessageFromRedis
       \<lparr>redis = \<lparr>strings = [''dlq:message:dlq-1'' \<mapsto> (\<lparr>dlqId = ''dlq-1'', originalRoutingKey = ''message.received'',
          originalExchange = ''baileys.events'', originalQueue = ''whatsapp.messages.bridge'',
          payload = \<lparr>queue = Some ''whatsapp.messages.bridge'', body = ''{}''\<rparr>,
          error = ''TIMEOUT'', retryCount = 1, maxRetries = 3, timestamp = 1000,
          lastErrorTimestamp = 1000, instanceId = None\<rparr>, 604800)], lists = Map.empty\<rparr>,
        effects = []\<rparr> ''dlq-1''
     = Some \<lparr>dlqId = ''dlq-1'', originalRoutingKey = ''message.received'',
          originalExchange = ''baileys.events'', originalQueue = ''whatsapp.messages.bridge'',
          payload = \<lparr>queue = Some ''whatsapp.messages.bridge'', body = ''{}''\<rparr>,
          error = ''TIMEOUT'', retryCount = 1, maxRetries = 3, timestamp = 1000,
          lastErrorTimestamp = 1000, instanceId = None\<rparr>
   \<and> fst (retryMessage
       \<lparr>redis = \<lparr>strings = [''dlq:message:dlq-1'' \<mapsto> (\<lparr>dlqId = ''dlq-1'', originalRoutingKey = ''message.received'',
          originalExchange = ''baileys.events'', originalQueue = ''whatsapp.messages.bridge'',
          payload = \<lparr>queue = Some ''whatsapp.messages.bridge'', body = ''{}''\<rparr>,
          error = ''TIMEOUT'', retryCount = 1, maxRetries = 3, timestamp = 1000,
          lastErrorTimestamp = 1000, instanceId = None\<rparr>, 604800)], lists = Map.empty\<rparr>,
        effects = []\<rparr>
       \<lparr>envNow = 500000, envToday = ''2025-01-01'', envNewId = ''dlq-2'',
        connectThrows = False, redisGetThrows = False, redisSetThrows = False,
        redisDelThrows = False,
        publishOutcome = PublishedTrue\<rparr> ''dlq-1'')
   \<and> getDLQMessageFromRedis (snd (retryMessage
       \<lparr>redis = \<lparr>strings = [''dlq:message:dlq-1'' \<mapsto> (\<lparr>dlqId = ''dlq-1'', originalRoutingKey = ''message.received'',
          originalExchange = ''baileys.events'', originalQueue = ''whatsapp.messages.bridge'',
          payload = \<lparr>queue = Some ''whatsapp.messages.bridge'', body = ''{}''\<rparr>,
          error = ''TIMEOUT'', retryCount = 1, maxRetries = 3, timestamp = 1000,
          lastErrorTimestamp = 1000, instanceId = None\<rparr>, 604800)], lists = Map.empty\<rparr>,
        effects = []\<rparr>
       \<lparr>envNow = 500000, envToday = ''2025-01-01'', envNewId = ''dlq-2'',
        connectThrows = False, redisGetThrows = False, redisSetThrows = False,
        redisDelThrows = False,
        publishOutcome = PublishedTrue\<rparr> ''dlq-1'')) ''dlq-1''
     = Some \<lparr>dlqId = ''dlq-1'', originalRoutingKey = ''message.received'',
          originalExchange = ''baileys.events'', originalQueue = ''whatsapp.messages.bridge'',
          payload = \<lparr>queue = Some ''whatsapp.messages.bridge'', body = ''{}''\<rparr>,
          error = ''TIMEOUT'', retryCount = 2, maxRetries = 3, timestamp = 1000,
          lastErrorTimestamp = 500000, instanceId = None\<rparr>
   \<and> getDLQMessageFromRedis
       \<lparr>redis = \<lparr>strings = [''dlq:message:dlq-1'' \<mapsto> (\<lparr>dlqId = ''dlq-1'', originalRoutingKey = ''message.received'',
          originalExchange = ''baileys.events'', originalQueue = ''whatsapp.messages.bridge'',
          payload = \<lparr>queue = Some ''whatsapp.messages.bridge'', body = ''{}''\<rparr>,
          error = ''TIMEOUT'', retryCount = 1, maxRetries = 3, timestamp = 1000,
          lastErrorTimestamp = 1000, instanceId = None\<rparr>, 604800)], lists = Map.empty\<rparr>,
        effects = []\<rparr> ''dlq-9'' = None
   \<and> retryMessage
       \<lparr>redis = \<lparr>strings = [''dlq:message:dlq-1'' \<mapsto> (\<lparr>dlqId = ''dlq-1'', originalRoutingKey = ''message.received'',
          originalExchange = ''baileys.events'', originalQueue = ''whatsapp.messages.bridge'',
          payload = \<lparr>queue = Some ''whatsapp.messages.bridge'', body = ''{}''\<rparr>,
          error = ''TIMEOUT'', retryCount = 1, maxRetries = 3, timestamp = 1000,
          lastErrorTimestamp = 1000, instanceId = None\<rparr>, 604800)], lists = Map.empty\<rparr>,
        effects = []\<rparr>
       \<lparr>envNow = 500000, envToday = ''2025-01-01'', envNewId = ''dlq-2'',
        connectThrows = False, redisGetThrows = False, redisSetThrows = False,
        redisDelThrows = False,
        publishOutcome = PublishedTrue\<rparr> ''dlq-9''
     = (False, \<lparr>redis = \<lparr>strings = [''dlq:message:dlq-1'' \<mapsto> (\<lparr>dlqId = ''dlq-1'', originalRoutingKey = ''message.received'',
          originalExchange = ''baileys.events'', originalQueue = ''whatsapp.messages.bridge'',
          payload = \<lparr>queue = Some ''whatsapp.messages.bridge'', body = ''{}''\<rparr>,
          error = ''TIMEOUT'', retryCount = 1, maxRetries = 3, timestamp = 1000,
          lastErrorTimestamp = 1000, instanceId = None\<rparr>, 604800)], lists = Map.empty\<rparr>,
        effects = []\<rparr>)"
proof -
  have g: "\<not> redisGetThrows \<lparr>envNow = 500000, envToday = ''2025-01-01'', envNewId = ''dlq-2'',
        connectThrows = False, redisGetThrows = False, redisSetThrows = False,
        redisDelThrows = False,
        publishOutcome = PublishedTrue\<rparr>"
    by simp
  have found: "getDLQMessageFromRedis
       \<lparr>redis = \<lparr>strings = [''dlq:message:dlq-1'' \<mapsto> (\<lparr>dlqId = ''dlq-1'', originalRoutingKey = ''message.received'',
          originalExchange = ''baileys.events'', originalQueue = ''whatsapp.messages.bridge'',
          payload = \<lparr>queue = Some ''whatsapp.messages.bridge'', body = ''{}''\<rparr>,
          error = ''TIMEOUT'', retryCount = 1, maxRetries = 3, timestamp = 1000,
          lastErrorTimestamp = 1000, instanceId = None\<rparr>, 604800)], lists = Map.empty\<rparr>,
        effects = []\<rparr> ''dlq-1''
     = Some \<lparr>dlqId = ''dlq-1'', originalRoutingKey = ''message.received'',
          originalExchange = ''baileys.events'', originalQueue = ''whatsapp.messages.bridge'',
          payload = \<lparr>queue = Some ''whatsapp.messages.bridge'', body = ''{}''\<rparr>,
          error = ''TIMEOUT'', retryCount = 1, maxRetries = 3, timestamp = 1000,
          lastErrorTimestamp = 1000, instanceId = None\<rparr>"
    by (simp add: getDLQMessageFromRedis_def dlqKey_def)
  have missing: "getDLQMessageFromRedis
       \<lparr>redis = \<lparr>strings = [''dlq:message:dlq-1'' \<mapsto> (\<lparr>dlqId = ''dlq-1'', originalRoutingKey = ''message.received'',
          originalExchange = ''baileys.events'', originalQueue = ''whatsapp.messages.bridge'',
          payload = \<lparr>queue = Some ''whatsapp.messages.bridge'', body = ''{}''\<rparr>,
          error = ''TIMEOUT'', retryCount = 1, maxRetries = 3, timestamp = 1000,
          lastErrorTimestamp = 1000, instanceId = None\<rparr>, 604800)], lists = Map.empty\<rparr>,
        effects = []\<rparr> ''dlq-9'' = None"
    by (simp add: getDLQMessageFromRedis_def dlqKey_def)
  from retryMessage_contract [OF g, of
       "\<lparr>redis = \<lparr>strings = [''dlq:message:dlq-1'' \<mapsto> (\<lparr>dlqId = ''dlq-1'', originalRoutingKey = ''message.received'',
          originalExchange = ''baileys.events'', originalQueue = ''whatsapp.messages.bridge'',
          payload = \<lparr>queue = Some ''whatsapp.messages.bridge'', body = ''{}''\<rparr>,
          error = ''TIMEOUT'', retryCount = 1, maxRetries = 3, timestamp = 1000,
          lastErrorTimestamp = 1000, instanceId = None\<rparr>, 604800)], lists = Map.empty\<rparr>,
        effects = []\<rparr>" "''dlq-1''"
       "\<lparr>dlqId = ''dlq-1'', originalRoutingKey = ''message.received'',
          originalExchange = ''baileys.events'', originalQueue = ''whatsapp.messages.bridge'',
          payload = \<lparr>queue = Some ''whatsapp.messages.bridge'', body = ''{}''\<rparr>,
          error = ''TIMEOUT'', retryCount = 1, maxRetries = 3, timestamp = 1000,
          lastErrorTimestamp = 1000, instanceId = None\<rparr>"]
     retryMessage_contract [OF g, of
       "\<lparr>redis = \<lparr>strings = [''dlq:message:dlq-1'' \<mapsto> (\<lparr>dlqId = ''dlq-1'', originalRoutingKey = ''message.received'',
          originalExchange = ''baileys.events'', originalQueue = ''whatsapp.messages.bridge'',
          payload = \<lparr>queue = Some ''whatsapp.messages.bridge'', body = ''{}''\<rparr>,
          error = ''TIMEOUT'', retryCount = 1, maxRetries = 3, timestamp = 1000,
          lastErrorTimestamp = 1000, instanceId = None\<rparr>, 604800)], lists = Map.empty\<rparr>,
        effects = []\<rparr>" "''dlq-9''"]
     found missing
  show ?thesis by simp
qed

text \<open>
  Claim C9. A failed retry consumes retry budget: for a stored record with
  \<open>retryCount < maxRetries\<close>, the record with the incremented count and the refreshed
  \<open>lastErrorTimestamp\<close> is written to the store before the publish is attempted, so when
  the publish returns false or throws, \<open>retryMessage\<close> returns false and the stored
  record's \<open>retryCount\<close> is one higher than before.
\<close>

theorem retryMessage_failed_publish_consumes_budget:
  "\<not> redisGetThrows env \<Longrightarrow> \<not> redisSetThrows env \<Longrightarrow>
   getDLQMessageFromRedis st messageId = Some m \<Longrightarrow> dlqId m = messageId \<Longrightarrow>
   retryCount m < maxRetries m \<Longrightarrow>
   publishOutcome env = PublishedFalse \<or> publishOutcome env = PublishThrows \<Longrightarrow>
     fst (retryMessage st env messageId) = False
     \<and> (\<exists>m'. getDLQMessageFromRedis (snd (retryMessage st env messageId)) messageId = Some m'
            \<and> retryCount m' = retryCount m + 1
            \<and> lastErrorTimestamp m' = envNow env)
     \<and> (\<exists>m' call. effects (snd (retryMessage st env messageId))
            = effects st @ [RedisSetEx (dlqKey messageId) m' dlqTtl,
                            PublishAttempt call (publishOutcome env)]
            \<and> retryCount m' = retryCount m + 1)"
proof -
  assume g: "\<not> redisGetThrows env" and s: "\<not> redisSetThrows env"
    and f: "getDLQMessageFromRedis st messageId = Some m" and i: "dlqId m = messageId"
    and c: "retryCount m < maxRetries m"
    and p: "publishOutcome env = PublishedFalse \<or> publishOutcome env = PublishThrows"
  define m' where "m' = m\<lparr>retryCount := retryCount m + 1, lastErrorTimestamp := envNow env\<rparr>"
  have id': "dlqId m' = messageId" using i by (simp add: m'_def)
  from g s f c have r: "retryMessage st env messageId =
       (publishOutcome env = PublishedTrue,
        doPublish (saveDLQMessageToRedis st m') (retryPublishCall env m' messageId)
          (publishOutcome env))"
    unfolding m'_def by (rule retryMessage_proceeds)
  from p have res: "fst (retryMessage st env messageId) = False"
    by (auto simp: r)
  have st': "getDLQMessageFromRedis (snd (retryMessage st env messageId)) messageId = Some m'"
    using stored_after_save [of st m'] id' by (simp add: r getDLQMessageFromRedis_def)
  have ef: "effects (snd (retryMessage st env messageId))
        = effects st @ [RedisSetEx (dlqKey messageId) m' dlqTtl,
                        PublishAttempt (retryPublishCall env m' messageId) (publishOutcome env)]"
    using effects_after_save [of st m'] id' by (simp add: r)
  have fields: "retryCount m' = retryCount m + 1" "lastErrorTimestamp m' = envNow env"
    by (simp_all add: m'_def)
  from res st' ef fields show ?thesis by blast
qed

text \<open>
  The theorem at the same store with a publish that throws: the call returns false and the
  stored record has gone from one retry to two.
\<close>

theorem retryMessage_failed_publish_consumes_budget_witness:
  "fst (retryMessage
       \<lparr>redis = \<lparr>strings = [''dlq:message:dlq-1'' \<mapsto> (\<lparr>dlqId = ''dlq-1'', originalRoutingKey = ''message.received'',
          originalExchange = ''baileys.events'', originalQueue = ''whatsapp.messages.bridge'',
          payload = \<lparr>queue = Some ''whatsapp.messages.bridge'', body = ''{}''\<rparr>,
          error = ''TIMEOUT'', retryCount = 1, maxRetries = 3, timestamp = 1000,
          lastErrorTimestamp = 1000, instanceId = None\<rparr>, 604800)], lists = Map.empty\<rparr>,
        effects = []\<rparr>
       \<lparr>envNow = 500000, envToday = ''2025-01-01'', envNewId = ''dlq-2'',
        connectThrows = False, redisGetThrows = False, redisSetThrows = False,
        redisDelThrows = False,
        publishOutcome = PublishThrows\<rparr> ''dlq-1'') = False
   \<and> map_option retryCount (getDLQMessageFromRedis (snd (retryMessage
       \<lparr>redis = \<lparr>strings = [''dlq:message:dlq-1'' \<mapsto> (\<lparr>dlqId = ''dlq-1'', originalRoutingKey = ''message.received'',
          originalExchange = ''baileys.events'', originalQueue = ''whatsapp.messages.bridge'',
          payload = \<lparr>queue = Some ''whatsapp.messages.bridge'', body = ''{}''\<rparr>,
          error = ''TIMEOUT'', retryCount = 1, maxRetries = 3, timestamp = 1000,
          lastErrorTimestamp = 1000, instanceId = None\<rparr>, 604800)], lists = Map.empty\<rparr>,
        effects = []\<rparr>
       \<lparr>envNow = 500000, envToday = ''2025-01-01'', envNewId = ''dlq-2'',
        connectThrows = False, redisGetThrows = False, redisSetThrows = False,
        redisDelThrows = False,
        publishOutcome = PublishThrows\<rparr> ''dlq-1'')) ''dlq-1'') = Some 2"
proof -
  have found: "getDLQMessageFromRedis
       \<lparr>redis = \<lparr>strings = [''dlq:message:dlq-1'' \<mapsto> (\<lparr>dlqId = ''dlq-1'', originalRoutingKey = ''message.received'',
          originalExchange = ''baileys.events'', originalQueue = ''whatsapp.messages.bridge'',
          payload = \<lparr>queue = Some ''whatsapp.messages.bridge'', body = ''{}''\<rparr>,
          error = ''TIMEOUT'', retryCount = 1, maxRetries = 3, timestamp = 1000,
          lastErrorTimestamp = 1000, instanceId = None\<rparr>, 604800)], lists = Map.empty\<rparr>,
        effects = []\<rparr> ''dlq-1''
     = Some \<lparr>dlqId = ''dlq-1'', originalRoutingKey = ''message.received'',
          originalExchange = ''baileys.events'', originalQueue = ''whatsapp.messages.bridge'',
          payload = \<lparr>queue = Some ''whatsapp.messages.bridge'', body = ''{}''\<rparr>,
          error = ''TIMEOUT'', retryCount = 1, maxRetries = 3, timestamp = 1000,
          lastErrorTimestamp = 1000, instanceId = None\<rparr>"
    by (simp add: getDLQMessageFromRedis_def dlqKey_def)
  from retryMessage_failed_publish_consumes_budget [OF _ _ found, of
       "\<lparr>envNow = 500000, envToday = ''2025-01-01'', envNewId = ''dlq-2'',
        connectThrows = False, redisGetThrows = False, redisSetThrows = False,
        redisDelThrows = False,
        publishOutcome = PublishThrows\<rparr>"]
  show ?thesis by auto
qed

text \<open>
  Claim C7, as stated, fails in its second half. Parking a record in an empty store on
  2023-11-14 writes the record under \<open>dlq:message:<id>\<close> with an expiry of 604800 s and
  publishes it to the dead-letter exchange, and that is all: the day's archive list
  \<open>dlq:archive:2023-11-14\<close> does not exist afterwards and no list push is among the calls
  made.
\<close>

theorem park_archive_counterexample:
  "strings (redis (sendToDeadLetterQueue
        \<lparr>redis = \<lparr>strings = Map.empty, lists = Map.empty\<rparr>, effects = []\<rparr>
        \<lparr>envNow = 1700000000000, envToday = ''2023-11-14'', envNewId = ''dlq-1700000000000-k3x9'',
        connectThrows = False, redisGetThrows = False, redisSetThrows = False,
        redisDelThrows = False,
        publishOutcome = PublishedTrue\<rparr>
        \<lparr>queue = Some ''whatsapp.send.commands'', body = ''{}''\<rparr> ''message.send'' ''TIMEOUT'' 0 None)) ''dlq:message:dlq-1700000000000-k3x9''
     = Some (\<lparr>dlqId = ''dlq-1700000000000-k3x9'', originalRoutingKey = ''message.send'',
        originalExchange = ''baileys.events'', originalQueue = ''whatsapp.send.commands'',
        payload = \<lparr>queue = Some ''whatsapp.send.commands'', body = ''{}''\<rparr>,
        error = ''TIMEOUT'', retryCount = 0, maxRetries = 3, timestamp = 1700000000000,
        lastErrorTimestamp = 1700000000000, instanceId = None\<rparr>, 604800)
   \<and> lists (redis (sendToDeadLetterQueue
        \<lparr>redis = \<lparr>strings = Map.empty, lists = Map.empty\<rparr>, effects = []\<rparr>
        \<lparr>envNow = 1700000000000, envToday = ''2023-11-14'', envNewId = ''dlq-1700000000000-k3x9'',
        connectThrows = False, redisGetThrows = False, redisSetThrows = False,
        redisDelThrows = False,
        publishOutcome = PublishedTrue\<rparr>
        \<lparr>queue = Some ''whatsapp.send.commands'', body = ''{}''\<rparr> ''message.send'' ''TIMEOUT'' 0 None)) ''dlq:archive:2023-11-14'' = None
   \<and> effects (sendToDeadLetterQueue
        \<lparr>redis = \<lparr>strings = Map.empty, lists = Map.empty\<rparr>, effects = []\<rparr>
        \<lparr>envNow = 1700000000000, envToday = ''2023-11-14'', envNewId = ''dlq-1700000000000-k3x9'',
        connectThrows = False, redisGetThrows = False, redisSetThrows = False,
        redisDelThrows = False,
        publishOutcome = PublishedTrue\<rparr>
        \<lparr>queue = Some ''whatsapp.send.commands'', body = ''{}''\<rparr> ''message.send'' ''TIMEOUT'' 0 None)
     = [RedisSetEx ''dlq:message:dlq-1700000000000-k3x9''
          \<lparr>dlqId = ''dlq-1700000000000-k3x9'', originalRoutingKey = ''message.send'',
        originalExchange = ''baileys.events'', originalQueue = ''whatsapp.send.commands'',
        payload = \<lparr>queue = Some ''whatsapp.send.commands'', body = ''{}''\<rparr>,
        error = ''TIMEOUT'', retryCount = 0, maxRetries = 3, timestamp = 1700000000000,
        lastErrorTimestamp = 1700000000000, instanceId = None\<rparr> 604800,
        PublishAttempt
          \<lparr>exchange = ''baileys.dlx'', routingKey = ''dead.letter'',
           publishedBody = RecordBody
             \<lparr>dlqId = ''dlq-1700000000000-k3x9'', originalRoutingKey = ''message.send'',
        originalExchange = ''baileys.events'', originalQueue = ''whatsapp.send.commands'',
        payload = \<lparr>queue = Some ''whatsapp.send.commands'', body = ''{}''\<rparr>,
        error = ''TIMEOUT'', retryCount = 0, maxRetries = 3, timestamp = 1700000000000,
        lastErrorTimestamp = 1700000000000, instanceId = None\<rparr>,
           publishedMessageId = ''dlq-1700000000000-k3x9'',
           publishedHeaders = [(''x-retry-count'', HNum 0),
                               (''x-original-routing-key'', HStr ''message.send''),
                               (''x-error'', HStr ''TIMEOUT''),
                               (''x-instance-id'', HStr ''unknown'')]\<rparr>
          PublishedTrue]"
  by (simp add: sendToDeadLetterQueue_def newDLQMessage_def saveDLQMessageToRedis_def
        doPublish_def dlqPublishCall_def dlqKey_def dlqTtl_def dlqConfigMaxRetries_def
        dlqExchange_def dlqRoutingKey_def Let_def)

text \<open>
  Claim C7, amended. When the connection and the store's write do not throw,
  \<open>sendToDeadLetterQueue\<close> stores the new record under \<open>dlq:message:<id>\<close> with an
  expiry of 7 days (604800 s) and then publishes it to exchange \<open>baileys.dlx\<close> with
  routing key \<open>dead.letter\<close>; it makes no other call, and every list of the store,
  the daily archive buckets among them, is as it was before.
\<close>

theorem sendToDeadLetterQueue_stores_and_publishes:
  "\<not> connectThrows env \<Longrightarrow> \<not> redisSetThrows env \<Longrightarrow>
     strings (redis (sendToDeadLetterQueue st env originalMessage rk err count inst))
        (''dlq:message:'' @ envNewId env)
       = Some (newDLQMessage env originalMessage rk err count inst, 7 * 24 * 60 * 60)
     \<and> dlqId (newDLQMessage env originalMessage rk err count inst) = envNewId env
     \<and> payload (newDLQMessage env originalMessage rk err count inst) = originalMessage
     \<and> lists (redis (sendToDeadLetterQueue st env originalMessage rk err count inst))
         = lists (redis st)
     \<and> effects (sendToDeadLetterQueue st env originalMessage rk err count inst)
         = effects st @
           [RedisSetEx (''dlq:message:'' @ envNewId env)
              (newDLQMessage env originalMessage rk err count inst) (7 * 24 * 60 * 60),
            PublishAttempt (dlqPublishCall (newDLQMessage env originalMessage rk err count inst))
              (publishOutcome env)]
     \<and> exchange (dlqPublishCall (newDLQMessage env originalMessage rk err count inst))
         = ''baileys.dlx''
     \<and> routingKey (dlqPublishCall (newDLQMessage env originalMessage rk err count inst))
         = ''dead.letter''"
proof -
  assume c: "\<not> connectThrows env" and w: "\<not> redisSetThrows env"
  define m where "m = newDLQMessage env originalMessage rk err count inst"
  have i: "dlqId m = envNewId env" and p: "payload m = originalMessage"
    by (simp_all add: m_def newDLQMessage_def)
  from c w have r: "sendToDeadLetterQueue st env originalMessage rk err count inst
      = doPublish (saveDLQMessageToRedis st m) (dlqPublishCall m) (publishOutcome env)"
    by (simp add: sendToDeadLetterQueue_def m_def Let_def)
  have k: "dlqKey (dlqId m) = ''dlq:message:'' @ envNewId env"
    by (simp add: dlqKey_def i)
  have t: "dlqTtl = 7 * 24 * 60 * 60"
    by (simp add: dlqTtl_def)
  have s: "strings (redis (sendToDeadLetterQueue st env originalMessage rk err count inst))
        (''dlq:message:'' @ envNewId env) = Some (m, 7 * 24 * 60 * 60)"
    using stored_after_save [of st m] by (simp add: r k t)
  have l: "lists (redis (sendToDeadLetterQueue st env originalMessage rk err count inst))
         = lists (redis st)"
    by (simp add: r lists_after_save)
  have e: "effects (sendToDeadLetterQueue st env originalMessage rk err count inst)
         = effects st @
           [RedisSetEx (''dlq:message:'' @ envNewId env) m (7 * 24 * 60 * 60),
            PublishAttempt (dlqPublishCall m) (publishOutcome env)]"
    using effects_after_save [of st m] by (simp add: r k t)
  have x: "exchange (dlqPublishCall m) = ''baileys.dlx''"
    and y: "routingKey (dlqPublishCall m) = ''dead.letter''"
    by (simp_all add: dlqPublishCall_def dlqExchange_def dlqRoutingKey_def)
  from i p s l e x y show ?thesis unfolding m_def by blast
qed

text \<open>The theorem at the call of the counterexample.\<close>

theorem sendToDeadLetterQueue_stores_and_publishes_witness:
  "\<not> connectThrows \<lparr>envNow = 1700000000000, envToday = ''2023-11-14'', envNewId = ''dlq-1700000000000-k3x9'',
        connectThrows = False, redisGetThrows = False, redisSetThrows = False,
        redisDelThrows = False,
        publishOutcome = PublishedTrue\<rparr>
   \<and> \<not> redisSetThrows \<lparr>envNow = 1700000000000, envToday = ''2023-11-14'', envNewId = ''dlq-1700000000000-k3x9'',
        connectThrows = False, redisGetThrows = False, redisSetThrows = False,
        redisDelThrows = False,
        publishOutcome = PublishedTrue\<rparr>
   \<and> strings (redis (sendToDeadLetterQueue
        \<lparr>redis = \<lparr>strings = Map.empty, lists = Map.empty\<rparr>, effects = []\<rparr>
        \<lparr>envNow = 1700000000000, envToday = ''2023-11-14'', envNewId = ''dlq-1700000000000-k3x9'',
        connectThrows = False, redisGetThrows = False, redisSetThrows = False,
        redisDelThrows = False,
        publishOutcome = PublishedTrue\<rparr>
        \<lparr>queue = Some ''whatsapp.send.commands'', body = ''{}''\<rparr> ''message.send'' ''TIMEOUT'' 0 None)) ''dlq:message:dlq-1700000000000-k3x9''
     = Some (\<lparr>dlqId = ''dlq-1700000000000-k3x9'', originalRoutingKey = ''message.send'',
        originalExchange = ''baileys.events'', originalQueue = ''whatsapp.send.commands'',
        payload = \<lparr>queue = Some ''whatsapp.send.commands'', body = ''{}''\<rparr>,
        error = ''TIMEOUT'', retryCount = 0, maxRetries = 3, timestamp = 1700000000000,
        lastErrorTimestamp = 1700000000000, instanceId = None\<rparr>, 604800)
   \<and> lists (redis (sendToDeadLetterQueue
        \<lparr>redis = \<lparr>strings = Map.empty, lists = Map.empty\<rparr>, effects = []\<rparr>
        \<lparr>envNow = 1700000000000, envToday = ''2023-11-14'', envNewId = ''dlq-1700000000000-k3x9'',
        connectThrows = False, redisGetThrows = False, redisSetThrows = False,
        redisDelThrows = False,
        publishOutcome = PublishedTrue\<rparr>
        \<lparr>queue = Some ''whatsapp.send.commands'', body = ''{}''\<rparr> ''message.send'' ''TIMEOUT'' 0 None)) = Map.empty"
  using sendToDeadLetterQueue_stores_and_publishes [of
      "\<lparr>envNow = 1700000000000, envToday = ''2023-11-14'', envNewId = ''dlq-1700000000000-k3x9'',
        connectThrows = False, redisGetThrows = False, redisSetThrows = False,
        redisDelThrows = False,
        publishOutcome = PublishedTrue\<rparr>"
      "\<lparr>redis = \<lparr>strings = Map.empty, lists = Map.empty\<rparr>, effects = []\<rparr>"
      "\<lparr>queue = Some ''whatsapp.send.commands'', body = ''{}''\<rparr>" "''message.send''" "''TIMEOUT''" 0 None]
  by (simp add: newDLQMessage_def dlqConfigMaxRetries_def)

section \<open>Verified properties: DLQManager\<close>

lemma isRecoverableError_iff:
  "isRecoverableError err \<longleftrightarrow>
     \<not> (jsIncludes err ''AUTHENTICATION_ERROR'' \<or> jsIncludes err ''INVALID_MESSAGE_FORMAT''
        \<or> jsIncludes err ''VALIDATION_ERROR'' \<or> jsIncludes err ''PERMISSION_DENIED''
        \<or> jsIncludes err ''NOT_FOUND'')"
  by (simp add: isRecoverableError_def nonRecoverableErrors_def)

lemma shouldRetryMessage_iff:
  "shouldRetryMessage env m \<longleftrightarrow>
     retryCount m < maxRetries m \<and> 300 * 1000 \<le> envNow env - lastErrorTimestamp m
     \<and> isRecoverableError (error m)"
  by (auto simp: shouldRetryMessage_def minRetryDelay_def)

lemma dlqKey_not_archiveKey: "dlqKey a \<noteq> archiveKey b"
  by (simp add: dlqKey_def archiveKey_def)

lemma archiveMessage_never_writes: "archiveMessage st env m = st"
  by (simp add: archiveMessage_def clientDefines_def)

lemma discardMessage_eq:
  "discardMessage st env m = (if redisDelThrows env then st else redisDel st (dlqKey (dlqId m)))"
  by (simp add: discardMessage_def archiveMessage_never_writes)

lemma discardMessage_result:
  assumes "\<not> redisDelThrows env"
  shows "strings (redis (discardMessage st env m)) (dlqKey (dlqId m)) = None"
    and "lists (redis (discardMessage st env m)) (archiveKey day)
           = lists (redis st) (archiveKey day)"
    and "effects (discardMessage st env m) = effects st @ [RedisDel (dlqKey (dlqId m))]"
  using assms dlqKey_not_archiveKey [of "dlqId m" day]
  by (auto simp: discardMessage_eq redisDel_def)

lemma processOne_retry:
  "shouldRetryMessage env m \<Longrightarrow>
     fst (processOne (st, stats) (env, m)) = snd (retryMessage st env (dlqId m))"
  by (cases "retryMessage st env (dlqId m)") (auto simp: processOne_def Let_def split: bool.splits)

lemma processOne_discard:
  "\<not> shouldRetryMessage env m \<Longrightarrow>
     processOne (st, stats) (env, m)
       = (discardMessage st env m,
          stats\<lparr>processed := processed stats + 1, discarded := discarded stats + 1\<rparr>)"
  by (simp add: processOne_def Let_def)

text \<open>The sweep is the loop body applied to each loaded record in turn.\<close>

lemma processFailedMessages_snoc:
  "processFailedMessages st (loaded @ [(env, m)])
     = processOne (processFailedMessages st loaded) (env, m)"
  by (simp add: processFailedMessages_def)

text \<open>
  The decision of the sweep, for the record examined last. \<open>retryMessage\<close> is called if
  and only if \<open>retryCount < maxRetries\<close>, at least 300 seconds have passed since
  \<open>lastErrorTimestamp\<close>, and the error text is recoverable. The error text is recoverable
  if and only if it contains none of the five deny-listed categories (authentication,
  invalid message format, validation, permission, not found): a deny-listed category wins
  over any allow-listed one, and a text matching neither list is recoverable. A record that
  fails the decision is discarded and counted as such. When the delete does not throw, the
  discard removes the live key and leaves every archive list as it was.
\<close>

lemma processFailedMessages_decision:
  "(shouldRetryMessage env m \<longleftrightarrow>
      retryCount m < maxRetries m \<and> 300 * 1000 \<le> envNow env - lastErrorTimestamp m
      \<and> isRecoverableError (error m))
   \<and> (isRecoverableError err \<longleftrightarrow>
        \<not> (jsIncludes err ''AUTHENTICATION_ERROR'' \<or> jsIncludes err ''INVALID_MESSAGE_FORMAT''
           \<or> jsIncludes err ''VALIDATION_ERROR'' \<or> jsIncludes err ''PERMISSION_DENIED''
           \<or> jsIncludes err ''NOT_FOUND''))
   \<and> ((\<exists>b. sweepDecision st env m = RetryCalled b) \<longleftrightarrow> shouldRetryMessage env m)
   \<and> (shouldRetryMessage env m \<longrightarrow>
        fst (processFailedMessages st (loaded @ [(env, m)]))
          = snd (retryMessage (fst (processFailedMessages st loaded)) env (dlqId m)))
   \<and> (\<not> shouldRetryMessage env m \<longrightarrow>
        sweepDecision st env m = DiscardCalled
        \<and> fst (processFailedMessages st (loaded @ [(env, m)]))
            = discardMessage (fst (processFailedMessages st loaded)) env m
        \<and> discarded (snd (processFailedMessages st (loaded @ [(env, m)])))
            = discarded (snd (processFailedMessages st loaded)) + 1
        \<and> (\<not> redisDelThrows env \<longrightarrow>
             strings (redis (fst (processFailedMessages st (loaded @ [(env, m)]))))
                 (''dlq:message:'' @ dlqId m) = None
             \<and> lists (redis (fst (processFailedMessages st (loaded @ [(env, m)]))))
                   (''dlq:archive:'' @ day)
                 = lists (redis (fst (processFailedMessages st loaded))) (''dlq:archive:'' @ day)
             \<and> effects (fst (processFailedMessages st (loaded @ [(env, m)])))
                 = effects (fst (processFailedMessages st loaded))
                   @ [RedisDel (''dlq:message:'' @ dlqId m)]))"
proof -
  obtain st0 stats0 where p: "processFailedMessages st loaded = (st0, stats0)"
    by (cases "processFailedMessages st loaded")
  have d: "(\<exists>b. sweepDecision st env m = RetryCalled b) \<longleftrightarrow> shouldRetryMessage env m"
    by (simp add: sweepDecision_def)
  have n: "\<not> shouldRetryMessage env m \<longrightarrow> sweepDecision st env m = DiscardCalled"
    by (simp add: sweepDecision_def)
  have r: "shouldRetryMessage env m \<longrightarrow>
        fst (processFailedMessages st (loaded @ [(env, m)]))
          = snd (retryMessage (fst (processFailedMessages st loaded)) env (dlqId m))"
    by (simp add: processFailedMessages_snoc p processOne_retry)
  have q: "\<not> shouldRetryMessage env m \<longrightarrow>
        fst (processFailedMessages st (loaded @ [(env, m)]))
            = discardMessage (fst (processFailedMessages st loaded)) env m
        \<and> discarded (snd (processFailedMessages st (loaded @ [(env, m)])))
            = discarded (snd (processFailedMessages st loaded)) + 1"
    by (simp add: processFailedMessages_snoc p processOne_discard)
  have a: "\<not> shouldRetryMessage env m \<longrightarrow> \<not> redisDelThrows env \<longrightarrow>
             strings (redis (fst (processFailedMessages st (loaded @ [(env, m)]))))
                 (dlqKey (dlqId m)) = None
             \<and> lists (redis (fst (processFailedMessages st (loaded @ [(env, m)]))))
                   (archiveKey day)
                 = lists (redis (fst (processFailedMessages st loaded))) (archiveKey day)
             \<and> effects (fst (processFailedMessages st (loaded @ [(env, m)])))
                 = effects (fst (processFailedMessages st loaded))
                   @ [RedisDel (dlqKey (dlqId m))]"
    by (simp add: processFailedMessages_snoc p processOne_discard discardMessage_result)
  from shouldRetryMessage_iff [of env m] isRecoverableError_iff [of err] d n r q
    a [unfolded dlqKey_def archiveKey_def]
  show ?thesis by blast
qed

text \<open>
  Claim C4 says that the sweep retries a parked record exactly when its retry count is below
  the maximum, at least 300 seconds have passed since its last error and its error is
  recoverable (a deny-listed category overriding the allow-list, an unlisted error being
  recoverable), and that a record failing the decision is archived into the daily bucket
  and deleted from the live store. The code decides as claimed and deletes as claimed, but
  it never archives: \<open>archiveMessage\<close> calls \<open>lpush\<close>, which the store's client does not
  define.

  A sweep at time 400000 of 2023-11-14 over two parked records with one retry made of
  three. The first, failed at time 2000 with a timeout, is retried: it is written back with
  its count at 2 and its payload is published. The second, failed at time 1000 with a text
  that names both a timeout and a validation error, fails the decision and is discarded:
  its live key is deleted, and the archive list of the day is still absent. The delete is
  the only call of the discard that reaches the store.
\<close>

theorem sweep_discards_without_archive:
  "shouldRetryMessage \<lparr>envNow = 400000, envToday = ''2023-11-14'', envNewId = ''dlq-3'',
        connectThrows = False, redisGetThrows = False, redisSetThrows = False,
        redisDelThrows = False, publishOutcome = PublishedTrue\<rparr>
      \<lparr>dlqId = ''dlq-1'', originalRoutingKey = ''message.received'',
          originalExchange = ''baileys.events'', originalQueue = ''whatsapp.messages.bridge'',
          payload = \<lparr>queue = Some ''whatsapp.messages.bridge'', body = ''{}''\<rparr>,
          error = ''TIMEOUT while sending'', retryCount = 1, maxRetries = 3,
          timestamp = 1000, lastErrorTimestamp = 2000, instanceId = None\<rparr>
   \<and> jsIncludes ''TIMEOUT: VALIDATION_ERROR in payload'' ''TIMEOUT''
   \<and> \<not> isRecoverableError ''TIMEOUT: VALIDATION_ERROR in payload''
   \<and> \<not> shouldRetryMessage \<lparr>envNow = 400000, envToday = ''2023-11-14'', envNewId = ''dlq-3'',
        connectThrows = False, redisGetThrows = False, redisSetThrows = False,
        redisDelThrows = False, publishOutcome = PublishedTrue\<rparr>
      \<lparr>dlqId = ''dlq-2'', originalRoutingKey = ''message.received'',
          originalExchange = ''baileys.events'', originalQueue = ''whatsapp.messages.bridge'',
          payload = \<lparr>queue = Some ''whatsapp.messages.bridge'', body = ''{}''\<rparr>,
          error = ''TIMEOUT: VALIDATION_ERROR in payload'', retryCount = 1, maxRetries = 3,
          timestamp = 1000, lastErrorTimestamp = 1000, instanceId = None\<rparr>
   \<and> snd (processFailedMessages
        \<lparr>redis = \<lparr>strings = [''dlq:message:dlq-1'' \<mapsto> (\<lparr>dlqId = ''dlq-1'', originalRoutingKey = ''message.received'',
          originalExchange = ''baileys.events'', originalQueue = ''whatsapp.messages.bridge'',
          payload = \<lparr>queue = Some ''whatsapp.messages.bridge'', body = ''{}''\<rparr>,
          error = ''TIMEOUT while sending'', retryCount = 1, maxRetries = 3,
          timestamp = 1000, lastErrorTimestamp = 2000, instanceId = None\<rparr>, 604800),
                           ''dlq:message:dlq-2'' \<mapsto> (\<lparr>dlqId = ''dlq-2'', originalRoutingKey = ''message.received'',
          originalExchange = ''baileys.events'', originalQueue = ''whatsapp.messages.bridge'',
          payload = \<lparr>queue = Some ''whatsapp.messages.bridge'', body = ''{}''\<rparr>,
          error = ''TIMEOUT: VALIDATION_ERROR in payload'', retryCount = 1, maxRetries = 3,
          timestamp = 1000, lastErrorTimestamp = 1000, instanceId = None\<rparr>, 604800)],
                lists = Map.empty\<rparr>,
        effects = []\<rparr>
        [(\<lparr>envNow = 400000, envToday = ''2023-11-14'', envNewId = ''dlq-3'',
        connectThrows = False, redisGetThrows = False, redisSetThrows = False,
        redisDelThrows = False, publishOutcome = PublishedTrue\<rparr>,
          \<lparr>dlqId = ''dlq-1'', originalRoutingKey = ''message.received'',
          originalExchange = ''baileys.events'', originalQueue = ''whatsapp.messages.bridge'',
          payload = \<lparr>queue = Some ''whatsapp.messages.bridge'', body = ''{}''\<rparr>,
          error = ''TIMEOUT while sending'', retryCount = 1, maxRetries = 3,
          timestamp = 1000, lastErrorTimestamp = 2000, instanceId = None\<rparr>),
         (\<lparr>envNow = 400000, envToday = ''2023-11-14'', envNewId = ''dlq-3'',
        connectThrows = False, redisGetThrows = False, redisSetThrows = False,
        redisDelThrows = False, publishOutcome = PublishedTrue\<rparr>,
          \<lparr>dlqId = ''dlq-2'', originalRoutingKey = ''message.received'',
          originalExchange = ''baileys.events'', originalQueue = ''whatsapp.messages.bridge'',
          payload = \<lparr>queue = Some ''whatsapp.messages.bridge'', body = ''{}''\<rparr>,
          error = ''TIMEOUT: VALIDATION_ERROR in payload'', retryCount = 1, maxRetries = 3,
          timestamp = 1000, lastErrorTimestamp = 1000, instanceId = None\<rparr>)])
       = \<lparr>processed = 2, retried = 1, failed = 0, discarded = 1\<rparr>
   \<and> strings (redis (fst (processFailedMessages
        \<lparr>redis = \<lparr>strings = [''dlq:message:dlq-1'' \<mapsto> (\<lparr>dlqId = ''dlq-1'', originalRoutingKey = ''message.received'',
          originalExchange = ''baileys.events'', originalQueue = ''whatsapp.messages.bridge'',
          payload = \<lparr>queue = Some ''whatsapp.messages.bridge'', body = ''{}''\<rparr>,
          error = ''TIMEOUT while sending'', retryCount = 1, maxRetries = 3,
          timestamp = 1000, lastErrorTimestamp = 2000, instanceId = None\<rparr>, 604800),
                           ''dlq:message:dlq-2'' \<mapsto> (\<lparr>dlqId = ''dlq-2'', originalRoutingKey = ''message.received'',
          originalExchange = ''baileys.events'', originalQueue = ''whatsapp.messages.bridge'',
          payload = \<lparr>queue = Some ''whatsapp.messages.bridge'', body = ''{}''\<rparr>,
          error = ''TIMEOUT: VALIDATION_ERROR in payload'', retryCount = 1, maxRetries = 3,
          timestamp = 1000, lastErrorTimestamp = 1000, instanceId = None\<rparr>, 604800)],
                lists = Map.empty\<rparr>,
        effects = []\<rparr>
        [(\<lparr>envNow = 400000, envToday = ''2023-11-14'', envNewId = ''dlq-3'',
        connectThrows = False, redisGetThrows = False, redisSetThrows = False,
        redisDelThrows = False, publishOutcome = PublishedTrue\<rparr>,
          \<lparr>dlqId = ''dlq-1'', originalRoutingKey = ''message.received'',
          originalExchange = ''baileys.events'', originalQueue = ''whatsapp.messages.bridge'',
          payload = \<lparr>queue = Some ''whatsapp.messages.bridge'', body = ''{}''\<rparr>,
          error = ''TIMEOUT while sending'', retryCount = 1, maxRetries = 3,
          timestamp = 1000, lastErrorTimestamp = 2000, instanceId = None\<rparr>),
         (\<lparr>envNow = 400000, envToday = ''2023-11-14'', envNewId = ''dlq-3'',
        connectThrows = False, redisGetThrows = False, redisSetThrows = False,
        redisDelThrows = False, publishOutcome = PublishedTrue\<rparr>,
          \<lparr>dlqId = ''dlq-2'', originalRoutingKey = ''message.received'',
          originalExchange = ''baileys.events'', originalQueue = ''whatsapp.messages.bridge'',
          payload = \<lparr>queue = Some ''whatsapp.messages.bridge'', body = ''{}''\<rparr>,
          error = ''TIMEOUT: VALIDATION_ERROR in payload'', retryCount = 1, maxRetries = 3,
          timestamp = 1000, lastErrorTimestamp = 1000, instanceId = None\<rparr>)]))) ''dlq:message:dlq-1''
       = Some (\<lparr>dlqId = ''dlq-1'', originalRoutingKey = ''message.received'',
          originalExchange = ''baileys.events'', originalQueue = ''whatsapp.messages.bridge'',
          payload = \<lparr>queue = Some ''whatsapp.messages.bridge'', body = ''{}''\<rparr>,
          error = ''TIMEOUT while sending'', retryCount = 2, maxRetries = 3,
          timestamp = 1000, lastErrorTimestamp = 400000, instanceId = None\<rparr>, 604800)
   \<and> strings (redis (fst (processFailedMessages
        \<lparr>redis = \<lparr>strings = [''dlq:message:dlq-1'' \<mapsto> (\<lparr>dlqId = ''dlq-1'', originalRoutingKey = ''message.received'',
          originalExchange = ''baileys.events'', originalQueue = ''whatsapp.messages.bridge'',
          payload = \<lparr>queue = Some ''whatsapp.messages.bridge'', body = ''{}''\<rparr>,
          error = ''TIMEOUT while sending'', retryCount = 1, maxRetries = 3,
          timestamp = 1000, lastErrorTimestamp = 2000, instanceId = None\<rparr>, 604800),
                           ''dlq:message:dlq-2'' \<mapsto> (\<lparr>dlqId = ''dlq-2'', originalRoutingKey = ''message.received'',
          originalExchange = ''baileys.events'', originalQueue = ''whatsapp.messages.bridge'',
          payload = \<lparr>queue = Some ''whatsapp.messages.bridge'', body = ''{}''\<rparr>,
          error = ''TIMEOUT: VALIDATION_ERROR in payload'', retryCount = 1, maxRetries = 3,
          timestamp = 1000, lastErrorTimestamp = 1000, instanceId = None\<rparr>, 604800)],
                lists = Map.empty\<rparr>,
        effects = []\<rparr>
        [(\<lparr>envNow = 400000, envToday = ''2023-11-14'', envNewId = ''dlq-3'',
        connectThrows = False, redisGetThrows = False, redisSetThrows = False,
        redisDelThrows = False, publishOutcome = PublishedTrue\<rparr>,
          \<lparr>dlqId = ''dlq-1'', originalRoutingKey = ''message.received'',
          originalExchange = ''baileys.events'', originalQueue = ''whatsapp.messages.bridge'',
          payload = \<lparr>queue = Some ''whatsapp.messages.bridge'', body = ''{}''\<rparr>,
          error = ''TIMEOUT while sending'', retryCount = 1, maxRetries = 3,
          timestamp = 1000, lastErrorTimestamp = 2000, instanceId = None\<rparr>),
         (\<lparr>envNow = 400000, envToday = ''2023-11-14'', envNewId = ''dlq-3'',
        connectThrows = False, redisGetThrows = False, redisSetThrows = False,
        redisDelThrows = False, publishOutcome = PublishedTrue\<rparr>,
          \<lparr>dlqId = ''dlq-2'', originalRoutingKey = ''message.received'',
          originalExchange = ''baileys.events'', originalQueue = ''whatsapp.messages.bridge'',
          payload = \<lparr>queue = Some ''whatsapp.messages.bridge'', body = ''{}''\<rparr>,
          error = ''TIMEOUT: VALIDATION_ERROR in payload'', retryCount = 1, maxRetries = 3,
          timestamp = 1000, lastErrorTimestamp = 1000, instanceId = None\<rparr>)]))) ''dlq:message:dlq-2'' = None
   \<and> lists (redis (fst (processFailedMessages
        \<lparr>redis = \<lparr>strings = [''dlq:message:dlq-1'' \<mapsto> (\<lparr>dlqId = ''dlq-1'', originalRoutingKey = ''message.received'',
          originalExchange = ''baileys.events'', originalQueue = ''whatsapp.messages.bridge'',
          payload = \<lparr>queue = Some ''whatsapp.messages.bridge'', body = ''{}''\<rparr>,
          error = ''TIMEOUT while sending'', retryCount = 1, maxRetries = 3,
          timestamp = 1000, lastErrorTimestamp = 2000, instanceId = None\<rparr>, 604800),
                           ''dlq:message:dlq-2'' \<mapsto> (\<lparr>dlqId = ''dlq-2'', originalRoutingKey = ''message.received'',
          originalExchange = ''baileys.events'', originalQueue = ''whatsapp.messages.bridge'',
          payload = \<lparr>queue = Some ''whatsapp.messages.bridge'', body = ''{}''\<rparr>,
          error = ''TIMEOUT: VALIDATION_ERROR in payload'', retryCount = 1, maxRetries = 3,
          timestamp = 1000, lastErrorTimestamp = 1000, instanceId = None\<rparr>, 604800)],
                lists = Map.empty\<rparr>,
        effects = []\<rparr>
        [(\<lparr>envNow = 400000, envToday = ''2023-11-14'', envNewId = ''dlq-3'',
        connectThrows = False, redisGetThrows = False, redisSetThrows = False,
        redisDelThrows = False, publishOutcome = PublishedTrue\<rparr>,
          \<lparr>dlqId = ''dlq-1'', originalRoutingKey = ''message.received'',
          originalExchange = ''baileys.events'', originalQueue = ''whatsapp.messages.bridge'',
          payload = \<lparr>queue = Some ''whatsapp.messages.bridge'', body = ''{}''\<rparr>,
          error = ''TIMEOUT while sending'', retryCount = 1, maxRetries = 3,
          timestamp = 1000, lastErrorTimestamp = 2000, instanceId = None\<rparr>),
         (\<lparr>envNow = 400000, envToday = ''2023-11-14'', envNewId = ''dlq-3'',
        connectThrows = False, redisGetThrows = False, redisSetThrows = False,
        redisDelThrows = False, publishOutcome = PublishedTrue\<rparr>,
          \<lparr>dlqId = ''dlq-2'', originalRoutingKey = ''message.received'',
          originalExchange = ''baileys.events'', originalQueue = ''whatsapp.messages.bridge'',
          payload = \<lparr>queue = Some ''whatsapp.messages.bridge'', body = ''{}''\<rparr>,
          error = ''TIMEOUT: VALIDATION_ERROR in payload'', retryCount = 1, maxRetries = 3,
          timestamp = 1000, lastErrorTimestamp = 1000, instanceId = None\<rparr>)]))) ''dlq:archive:2023-11-14'' = None
   \<and> effects (fst (processFailedMessages
        \<lparr>redis = \<lparr>strings = [''dlq:message:dlq-1'' \<mapsto> (\<lparr>dlqId = ''dlq-1'', originalRoutingKey = ''message.received'',
          originalExchange = ''baileys.events'', originalQueue = ''whatsapp.messages.bridge'',
          payload = \<lparr>queue = Some ''whatsapp.messages.bridge'', body = ''{}''\<rparr>,
          error = ''TIMEOUT while sending'', retryCount = 1, maxRetries = 3,
          timestamp = 1000, lastErrorTimestamp = 2000, instanceId = None\<rparr>, 604800),
                           ''dlq:message:dlq-2'' \<mapsto> (\<lparr>dlqId = ''dlq-2'', originalRoutingKey = ''message.received'',
          originalExchange = ''baileys.events'', originalQueue = ''whatsapp.messages.bridge'',
          payload = \<lparr>queue = Some ''whatsapp.messages.bridge'', body = ''{}''\<rparr>,
          error = ''TIMEOUT: VALIDATION_ERROR in payload'', retryCount = 1, maxRetries = 3,
          timestamp = 1000, lastErrorTimestamp = 1000, instanceId = None\<rparr>, 604800)],
                lists = Map.empty\<rparr>,
        effects = []\<rparr>
        [(\<lparr>envNow = 400000, envToday = ''2023-11-14'', envNewId = ''dlq-3'',
        connectThrows = False, redisGetThrows = False, redisSetThrows = False,
        redisDelThrows = False, publishOutcome = PublishedTrue\<rparr>,
          \<lparr>dlqId = ''dlq-1'', originalRoutingKey = ''message.received'',
          originalExchange = ''baileys.events'', originalQueue = ''whatsapp.messages.bridge'',
          payload = \<lparr>queue = Some ''whatsapp.messages.bridge'', body = ''{}''\<rparr>,
          error = ''TIMEOUT while sending'', retryCount = 1, maxRetries = 3,
          timestamp = 1000, lastErrorTimestamp = 2000, instanceId = None\<rparr>),
         (\<lparr>envNow = 400000, envToday = ''2023-11-14'', envNewId = ''dlq-3'',
        connectThrows = False, redisGetThrows = False, redisSetThrows = False,
        redisDelThrows = False, publishOutcome = PublishedTrue\<rparr>,
          \<lparr>dlqId = ''dlq-2'', originalRoutingKey = ''message.received'',
          originalExchange = ''baileys.events'', originalQueue = ''whatsapp.messages.bridge'',
          payload = \<lparr>queue = Some ''whatsapp.messages.bridge'', body = ''{}''\<rparr>,
          error = ''TIMEOUT: VALIDATION_ERROR in payload'', retryCount = 1, maxRetries = 3,
          timestamp = 1000, lastErrorTimestamp = 1000, instanceId = None\<rparr>)]))
       = [RedisSetEx ''dlq:message:dlq-1''
            \<lparr>dlqId = ''dlq-1'', originalRoutingKey = ''message.received'',
          originalExchange = ''baileys.events'', originalQueue = ''whatsapp.messages.bridge'',
          payload = \<lparr>queue = Some ''whatsapp.messages.bridge'', body = ''{}''\<rparr>,
          error = ''TIMEOUT while sending'', retryCount = 2, maxRetries = 3,
          timestamp = 1000, lastErrorTimestamp = 400000, instanceId = None\<rparr> 604800,
          PublishAttempt
            \<lparr>exchange = ''baileys.events'', routingKey = ''message.received'',
             publishedBody = PayloadBody \<lparr>queue = Some ''whatsapp.messages.bridge'', body = ''{}''\<rparr>,
             publishedMessageId = ''dlq-3'',
             publishedHeaders = [(''x-retry-attempt'', HNum 2),
                                 (''x-dlq-message-id'', HStr ''dlq-1'')]\<rparr>
            PublishedTrue,
          RedisDel ''dlq:message:dlq-2'']"
proof -
  have ok: "shouldRetryMessage \<lparr>envNow = 400000, envToday = ''2023-11-14'', envNewId = ''dlq-3'',
        connectThrows = False, redisGetThrows = False, redisSetThrows = False,
        redisDelThrows = False, publishOutcome = PublishedTrue\<rparr>
      \<lparr>dlqId = ''dlq-1'', originalRoutingKey = ''message.received'',
          originalExchange = ''baileys.events'', originalQueue = ''whatsapp.messages.bridge'',
          payload = \<lparr>queue = Some ''whatsapp.messages.bridge'', body = ''{}''\<rparr>,
          error = ''TIMEOUT while sending'', retryCount = 1, maxRetries = 3,
          timestamp = 1000, lastErrorTimestamp = 2000, instanceId = None\<rparr>"
    by code_simp
  have inc: "jsIncludes ''TIMEOUT: VALIDATION_ERROR in payload'' ''TIMEOUT''"
    by code_simp
  have deny: "\<not> isRecoverableError ''TIMEOUT: VALIDATION_ERROR in payload''"
    by code_simp
  have no: "\<not> shouldRetryMessage \<lparr>envNow = 400000, envToday = ''2023-11-14'', envNewId = ''dlq-3'',
        connectThrows = False, redisGetThrows = False, redisSetThrows = False,
        redisDelThrows = False, publishOutcome = PublishedTrue\<rparr>
      \<lparr>dlqId = ''dlq-2'', originalRoutingKey = ''message.received'',
          originalExchange = ''baileys.events'', originalQueue = ''whatsapp.messages.bridge'',
          payload = \<lparr>queue = Some ''whatsapp.messages.bridge'', body = ''{}''\<rparr>,
          error = ''TIMEOUT: VALIDATION_ERROR in payload'', retryCount = 1, maxRetries = 3,
          timestamp = 1000, lastErrorTimestamp = 1000, instanceId = None\<rparr>"
    using deny by (simp add: shouldRetryMessage_def)
  note defs = processFailedMessages_def processOne_def retryMessage_def
    getDLQMessageFromRedis_def saveDLQMessageToRedis_def doPublish_def
    retryPublishCall_def discardMessage_eq redisDel_def dlqKey_def dlqTtl_def Let_def
  have stats: "snd (processFailedMessages
        \<lparr>redis = \<lparr>strings = [''dlq:message:dlq-1'' \<mapsto> (\<lparr>dlqId = ''dlq-1'', originalRoutingKey = ''message.received'',
          originalExchange = ''baileys.events'', originalQueue = ''whatsapp.messages.bridge'',
          payload = \<lparr>queue = Some ''whatsapp.messages.bridge'', body = ''{}''\<rparr>,
          error = ''TIMEOUT while sending'', retryCount = 1, maxRetries = 3,
          timestamp = 1000, lastErrorTimestamp = 2000, instanceId = None\<rparr>, 604800),
                           ''dlq:message:dlq-2'' \<mapsto> (\<lparr>dlqId = ''dlq-2'', originalRoutingKey = ''message.received'',
          originalExchange = ''baileys.events'', originalQueue = ''whatsapp.messages.bridge'',
          payload = \<lparr>queue = Some ''whatsapp.messages.bridge'', body = ''{}''\<rparr>,
          error = ''TIMEOUT: VALIDATION_ERROR in payload'', retryCount = 1, maxRetries = 3,
          timestamp = 1000, lastErrorTimestamp = 1000, instanceId = None\<rparr>, 604800)],
                lists = Map.empty\<rparr>,
        effects = []\<rparr>
        [(\<lparr>envNow = 400000, envToday = ''2023-11-14'', envNewId = ''dlq-3'',
        connectThrows = False, redisGetThrows = False, redisSetThrows = False,
        redisDelThrows = False, publishOutcome = PublishedTrue\<rparr>,
          \<lparr>dlqId = ''dlq-1'', originalRoutingKey = ''message.received'',
          originalExchange = ''baileys.events'', originalQueue = ''whatsapp.messages.bridge'',
          payload = \<lparr>queue = Some ''whatsapp.messages.bridge'', body = ''{}''\<rparr>,
          error = ''TIMEOUT while sending'', retryCount = 1, maxRetries = 3,
          timestamp = 1000, lastErrorTimestamp = 2000, instanceId = None\<rparr>),
         (\<lparr>envNow = 400000, envToday = ''2023-11-14'', envNewId = ''dlq-3'',
        connectThrows = False, redisGetThrows = False, redisSetThrows = False,
        redisDelThrows = False, publishOutcome = PublishedTrue\<rparr>,
          \<lparr>dlqId = ''dlq-2'', originalRoutingKey = ''message.received'',
          originalExchange = ''baileys.events'', originalQueue = ''whatsapp.messages.bridge'',
          payload = \<lparr>queue = Some ''whatsapp.messages.bridge'', body = ''{}''\<rparr>,
          error = ''TIMEOUT: VALIDATION_ERROR in payload'', retryCount = 1, maxRetries = 3,
          timestamp = 1000, lastErrorTimestamp = 1000, instanceId = None\<rparr>)])
       = \<lparr>processed = 2, retried = 1, failed = 0, discarded = 1\<rparr>"
    using ok no by (simp add: defs)
  have kept: "strings (redis (fst (processFailedMessages
        \<lparr>redis = \<lparr>strings = [''dlq:message:dlq-1'' \<mapsto> (\<lparr>dlqId = ''dlq-1'', originalRoutingKey = ''message.received'',
          originalExchange = ''baileys.events'', originalQueue = ''whatsapp.messages.bridge'',
          payload = \<lparr>queue = Some ''whatsapp.messages.bridge'', body = ''{}''\<rparr>,
          error = ''TIMEOUT while sending'', retryCount = 1, maxRetries = 3,
          timestamp = 1000, lastErrorTimestamp = 2000, instanceId = None\<rparr>, 604800),
                           ''dlq:message:dlq-2'' \<mapsto> (\<lparr>dlqId = ''dlq-2'', originalRoutingKey = ''message.received'',
          originalExchange = ''baileys.events'', originalQueue = ''whatsapp.messages.bridge'',
          payload = \<lparr>queue = Some ''whatsapp.messages.bridge'', body = ''{}''\<rparr>,
          error = ''TIMEOUT: VALIDATION_ERROR in payload'', retryCount = 1, maxRetries = 3,
          timestamp = 1000, lastErrorTimestamp = 1000, instanceId = None\<rparr>, 604800)],
                lists = Map.empty\<rparr>,
        effects = []\<rparr>
        [(\<lparr>envNow = 400000, envToday = ''2023-11-14'', envNewId = ''dlq-3'',
        connectThrows = False, redisGetThrows = False, redisSetThrows = False,
        redisDelThrows = False, publishOutcome = PublishedTrue\<rparr>,
          \<lparr>dlqId = ''dlq-1'', originalRoutingKey = ''message.received'',
          originalExchange = ''baileys.events'', originalQueue = ''whatsapp.messages.bridge'',
          payload = \<lparr>queue = Some ''whatsapp.messages.bridge'', body = ''{}''\<rparr>,
          error = ''TIMEOUT while sending'', retryCount = 1, maxRetries = 3,
          timestamp = 1000, lastErrorTimestamp = 2000, instanceId = None\<rparr>),
         (\<lparr>envNow = 400000, envToday = ''2023-11-14'', envNewId = ''dlq-3'',
        connectThrows = False, redisGetThrows = False, redisSetThrows = False,
        redisDelThrows = False, publishOutcome = PublishedTrue\<rparr>,
          \<lparr>dlqId = ''dlq-2'', originalRoutingKey = ''message.received'',
          originalExchange = ''baileys.events'', originalQueue = ''whatsapp.messages.bridge'',
          payload = \<lparr>queue = Some ''whatsapp.messages.bridge'', body = ''{}''\<rparr>,
          error = ''TIMEOUT: VALIDATION_ERROR in payload'', retryCount = 1, maxRetries = 3,
          timestamp = 1000, lastErrorTimestamp = 1000, instanceId = None\<rparr>)]))) ''dlq:message:dlq-1''
       = Some (\<lparr>dlqId = ''dlq-1'', originalRoutingKey = ''message.received'',
          originalExchange = ''baileys.events'', originalQueue = ''whatsapp.messages.bridge'',
          payload = \<lparr>queue = Some ''whatsapp.messages.bridge'', body = ''{}''\<rparr>,
          error = ''TIMEOUT while sending'', retryCount = 2, maxRetries = 3,
          timestamp = 1000, lastErrorTimestamp = 400000, instanceId = None\<rparr>, 604800)"
    using ok no by (simp add: defs)
  have gone: "strings (redis (fst (processFailedMessages
        \<lparr>redis = \<lparr>strings = [''dlq:message:dlq-1'' \<mapsto> (\<lparr>dlqId = ''dlq-1'', originalRoutingKey = ''message.received'',
          originalExchange = ''baileys.events'', originalQueue = ''whatsapp.messages.bridge'',
          payload = \<lparr>queue = Some ''whatsapp.messages.bridge'', body = ''{}''\<rparr>,
          error = ''TIMEOUT while sending'', retryCount = 1, maxRetries = 3,
          timestamp = 1000, lastErrorTimestamp = 2000, instanceId = None\<rparr>, 604800),
                           ''dlq:message:dlq-2'' \<mapsto> (\<lparr>dlqId = ''dlq-2'', originalRoutingKey = ''message.received'',
          originalExchange = ''baileys.events'', originalQueue = ''whatsapp.messages.bridge'',
          payload = \<lparr>queue = Some ''whatsapp.messages.bridge'', body = ''{}''\<rparr>,
          error = ''TIMEOUT: VALIDATION_ERROR in payload'', retryCount = 1, maxRetries = 3,
          timestamp = 1000, lastErrorTimestamp = 1000, instanceId = None\<rparr>, 604800)],
                lists = Map.empty\<rparr>,
        effects = []\<rparr>
        [(\<lparr>envNow = 400000, envToday = ''2023-11-14'', envNewId = ''dlq-3'',
        connectThrows = False, redisGetThrows = False, redisSetThrows = False,
        redisDelThrows = False, publishOutcome = PublishedTrue\<rparr>,
          \<lparr>dlqId = ''dlq-1'', originalRoutingKey = ''message.received'',
          originalExchange = ''baileys.events'', originalQueue = ''whatsapp.messages.bridge'',
          payload = \<lparr>queue = Some ''whatsapp.messages.bridge'', body = ''{}''\<rparr>,
          error = ''TIMEOUT while sending'', retryCount = 1, maxRetries = 3,
          timestamp = 1000, lastErrorTimestamp = 2000, instanceId = None\<rparr>),
         (\<lparr>envNow = 400000, envToday = ''2023-11-14'', envNewId = ''dlq-3'',
        connectThrows = False, redisGetThrows = False, redisSetThrows = False,
        redisDelThrows = False, publishOutcome = PublishedTrue\<rparr>,
          \<lparr>dlqId = ''dlq-2'', originalRoutingKey = ''message.received'',
          originalExchange = ''baileys.events'', originalQueue = ''whatsapp.messages.bridge'',
          payload = \<lparr>queue = Some ''whatsapp.messages.bridge'', body = ''{}''\<rparr>,
          error = ''TIMEOUT: VALIDATION_ERROR in payload'', retryCount = 1, maxRetries = 3,
          timestamp = 1000, lastErrorTimestamp = 1000, instanceId = None\<rparr>)]))) ''dlq:message:dlq-2'' = None"
    using ok no by (simp add: defs)
  have absent: "lists (redis (fst (processFailedMessages
        \<lparr>redis = \<lparr>strings = [''dlq:message:dlq-1'' \<mapsto> (\<lparr>dlqId = ''dlq-1'', originalRoutingKey = ''message.received'',
          originalExchange = ''baileys.events'', originalQueue = ''whatsapp.messages.bridge'',
          payload = \<lparr>queue = Some ''whatsapp.messages.bridge'', body = ''{}''\<rparr>,
          error = ''TIMEOUT while sending'', retryCount = 1, maxRetries = 3,
          timestamp = 1000, lastErrorTimestamp = 2000, instanceId = None\<rparr>, 604800),
                           ''dlq:message:dlq-2'' \<mapsto> (\<lparr>dlqId = ''dlq-2'', originalRoutingKey = ''message.received'',
          originalExchange = ''baileys.events'', originalQueue = ''whatsapp.messages.bridge'',
          payload = \<lparr>queue = Some ''whatsapp.messages.bridge'', body = ''{}''\<rparr>,
          error = ''TIMEOUT: VALIDATION_ERROR in payload'', retryCount = 1, maxRetries = 3,
          timestamp = 1000, lastErrorTimestamp = 1000, instanceId = None\<rparr>, 604800)],
                lists = Map.empty\<rparr>,
        effects = []\<rparr>
        [(\<lparr>envNow = 400000, envToday = ''2023-11-14'', envNewId = ''dlq-3'',
        connectThrows = False, redisGetThrows = False, redisSetThrows = False,
        redisDelThrows = False, publishOutcome = PublishedTrue\<rparr>,
          \<lparr>dlqId = ''dlq-1'', originalRoutingKey = ''message.received'',
          originalExchange = ''baileys.events'', originalQueue = ''whatsapp.messages.bridge'',
          payload = \<lparr>queue = Some ''whatsapp.messages.bridge'', body = ''{}''\<rparr>,
          error = ''TIMEOUT while sending'', retryCount = 1, maxRetries = 3,
          timestamp = 1000, lastErrorTimestamp = 2000, instanceId = None\<rparr>),
         (\<lparr>envNow = 400000, envToday = ''2023-11-14'', envNewId = ''dlq-3'',
        connectThrows = False, redisGetThrows = False, redisSetThrows = False,
        redisDelThrows = False, publishOutcome = PublishedTrue\<rparr>,
          \<lparr>dlqId = ''dlq-2'', originalRoutingKey = ''message.received'',
          originalExchange = ''baileys.events'', originalQueue = ''whatsapp.messages.bridge'',
          payload = \<lparr>queue = Some ''whatsapp.messages.bridge'', body = ''{}''\<rparr>,
          error = ''TIMEOUT: VALIDATION_ERROR in payload'', retryCount = 1, maxRetries = 3,
          timestamp = 1000, lastErrorTimestamp = 1000, instanceId = None\<rparr>)]))) ''dlq:archive:2023-11-14'' = None"
    using ok no by (simp add: defs)
  have calls: "effects (fst (processFailedMessages
        \<lparr>redis = \<lparr>strings = [''dlq:message:dlq-1'' \<mapsto> (\<lparr>dlqId = ''dlq-1'', originalRoutingKey = ''message.received'',
          originalExchange = ''baileys.events'', originalQueue = ''whatsapp.messages.bridge'',
          payload = \<lparr>queue = Some ''whatsapp.messages.bridge'', body = ''{}''\<rparr>,
          error = ''TIMEOUT while sending'', retryCount = 1, maxRetries = 3,
          timestamp = 1000, lastErrorTimestamp = 2000, instanceId = None\<rparr>, 604800),
                           ''dlq:message:dlq-2'' \<mapsto> (\<lparr>dlqId = ''dlq-2'', originalRoutingKey = ''message.received'',
          originalExchange = ''baileys.events'', originalQueue = ''whatsapp.messages.bridge'',
          payload = \<lparr>queue = Some ''whatsapp.messages.bridge'', body = ''{}''\<rparr>,
          error = ''TIMEOUT: VALIDATION_ERROR in payload'', retryCount = 1, maxRetries = 3,
          timestamp = 1000, lastErrorTimestamp = 1000, instanceId = None\<rparr>, 604800)],
                lists = Map.empty\<rparr>,
        effects = []\<rparr>
        [(\<lparr>envNow = 400000, envToday = ''2023-11-14'', envNewId = ''dlq-3'',
        connectThrows = False, redisGetThrows = False, redisSetThrows = False,
        redisDelThrows = False, publishOutcome = PublishedTrue\<rparr>,
          \<lparr>dlqId = ''dlq-1'', originalRoutingKey = ''message.received'',
          originalExchange = ''baileys.events'', originalQueue = ''whatsapp.messages.bridge'',
          payload = \<lparr>queue = Some ''whatsapp.messages.bridge'', body = ''{}''\<rparr>,
          error = ''TIMEOUT while sending'', retryCount = 1, maxRetries = 3,
          timestamp = 1000, lastErrorTimestamp = 2000, instanceId = None\<rparr>),
         (\<lparr>envNow = 400000, envToday = ''2023-11-14'', envNewId = ''dlq-3'',
        connectThrows = False, redisGetThrows = False, redisSetThrows = False,
        redisDelThrows = False, publishOutcome = PublishedTrue\<rparr>,
          \<lparr>dlqId = ''dlq-2'', originalRoutingKey = ''message.received'',
          originalExchange = ''baileys.events'', originalQueue = ''whatsapp.messages.bridge'',
          payload = \<lparr>queue = Some ''whatsapp.messages.bridge'', body = ''{}''\<rparr>,
          error = ''TIMEOUT: VALIDATION_ERROR in payload'', retryCount = 1, maxRetries = 3,
          timestamp = 1000, lastErrorTimestamp = 1000, instanceId = None\<rparr>)]))
       = [RedisSetEx ''dlq:message:dlq-1''
            \<lparr>dlqId = ''dlq-1'', originalRoutingKey = ''message.received'',
          originalExchange = ''baileys.events'', originalQueue = ''whatsapp.messages.bridge'',
          payload = \<lparr>queue = Some ''whatsapp.messages.bridge'', body = ''{}''\<rparr>,
          error = ''TIMEOUT while sending'', retryCount = 2, maxRetries = 3,
          timestamp = 1000, lastErrorTimestamp = 400000, instanceId = None\<rparr> 604800,
          PublishAttempt
            \<lparr>exchange = ''baileys.events'', routingKey = ''message.received'',
             publishedBody = PayloadBody \<lparr>queue = Some ''whatsapp.messages.bridge'', body = ''{}''\<rparr>,
             publishedMessageId = ''dlq-3'',
             publishedHeaders = [(''x-retry-attempt'', HNum 2),
                                 (''x-dlq-message-id'', HStr ''dlq-1'')]\<rparr>
            PublishedTrue,
          RedisDel ''dlq:message:dlq-2'']"
    using ok no by (simp add: defs)
  from ok inc deny no stats kept gone absent calls show ?thesis
    by blast
qed

section \<open>Verified properties: MessageBridge and RedisConsumer\<close>

lemma addMessageToStream_success:
  "\<not> streamConnectThrows env \<Longrightarrow> \<not> clientMissing env \<Longrightarrow> \<not> xAddThrows env \<Longrightarrow>
     addMessageToStream calls env event = (Some (xAddId env), calls @ [StreamAdd event])"
  by (simp add: addMessageToStream_def)

lemma xAck_success:
  "\<not> clientMissing env \<Longrightarrow> \<not> xAckThrows env \<Longrightarrow>
     xAck calls env entryId = (False, calls @ [StreamAck entryId])"
  by (simp add: xAck_def)

text \<open>
  The broker side at an append that fails: \<open>addMessageToStream\<close> returns \<open>null\<close>
  instead of throwing, the handler does not look at the result, and the delivery is acked
  with nothing appended.
\<close>

lemma onBrokerDelivery_failed_append:
  "onBrokerDelivery []
     \<lparr>streamConnectThrows = False, clientMissing = False, xAddThrows = True,
        xAckThrows = False, xAddId = ''1700000000000-0''\<rparr>
     (Some \<lparr>parsedContent = Some \<lparr>eventId = ''e1'', sessionId = ''s1'', fromUser = ''5511999990000'',
        messageType = ''text''\<rparr>\<rparr>)
   = [BrokerAck]"
  by (simp add: onBrokerDelivery_def addMessageToStream_def)

text \<open>
  Claim C1, as stated, fails on the log side: with a storage callback that throws, the entry
  \<open>1700000000000-0\<close> is acknowledged all the same, right after the failed callback, and
  the store is as the failed callback left it.
\<close>

theorem relay_ack_counterexample:
  "processMessage []
     \<lparr>streamConnectThrows = False, clientMissing = False, xAddThrows = False,
        xAckThrows = False, xAddId = ''1700000000000-0''\<rparr>
     (Some (saveMessageCallback True))
     \<lparr>streamEntryId = ''1700000000000-0'',
      convertedEvent = Some \<lparr>eventId = ''e1'', sessionId = ''s1'', fromUser = ''5511999990000'',
        messageType = ''text''\<rparr>\<rparr>
     []
   = ([StorageCallback \<lparr>eventId = ''e1'', sessionId = ''s1'', fromUser = ''5511999990000'',
        messageType = ''text''\<rparr>,
       StreamAck ''1700000000000-0''], [])"
  by (simp add: processMessage_def processMessageCatch_def xAck_def saveMessageCallback_def)

text \<open>
  Claim C1, amended. A broker delivery whose content parses and whose append to the log
  stream succeeds is acked, and the ack comes after the append; a delivery whose content
  does not parse is never acked: it is negatively acknowledged without requeue. A log-stream
  entry is acked after the storage callback has returned successfully; it is acked as well
  when the callback throws or when the entry does not convert back to an event, because the
  failure branch acknowledges the entry (the acknowledgement itself not throwing).
\<close>

theorem relay_acknowledgement:
  "(parsedContent d = Some event \<and> \<not> streamConnectThrows env \<and> \<not> clientMissing env
      \<and> \<not> xAddThrows env \<longrightarrow>
      onBrokerDelivery calls env (Some d) = calls @ [StreamAdd event, BrokerAck])
   \<and> (parsedContent d = None \<longrightarrow>
        onBrokerDelivery calls env (Some d) = calls @ [BrokerNack False False])
   \<and> (\<not> clientMissing env \<and> \<not> xAckThrows env \<longrightarrow>
        (convertedEvent msg = Some event \<and> callback event db = (Resolved (), db') \<longrightarrow>
           processMessage calls env (Some callback) msg db
             = (calls @ [StorageCallback event, StreamAck (streamEntryId msg)], db'))
        \<and> (convertedEvent msg = Some event \<and> callback event db = (Thrown err, db') \<longrightarrow>
           processMessage calls env (Some callback) msg db
             = (calls @ [StorageCallback event, StreamAck (streamEntryId msg)], db'))
        \<and> (convertedEvent msg = None \<longrightarrow>
           processMessage calls env (Some callback) msg db
             = (calls @ [StreamAck (streamEntryId msg)], db)))"
proof (intro conjI impI)
  assume "parsedContent d = Some event \<and> \<not> streamConnectThrows env \<and> \<not> clientMissing env
      \<and> \<not> xAddThrows env"
  then show "onBrokerDelivery calls env (Some d) = calls @ [StreamAdd event, BrokerAck]"
    by (simp add: onBrokerDelivery_def addMessageToStream_success)
next
  assume "parsedContent d = None"
  then show "onBrokerDelivery calls env (Some d) = calls @ [BrokerNack False False]"
    by (simp add: onBrokerDelivery_def)
next
  assume a: "\<not> clientMissing env \<and> \<not> xAckThrows env"
    and c: "convertedEvent msg = Some event \<and> callback event db = (Resolved (), db')"
  then show "processMessage calls env (Some callback) msg db
             = (calls @ [StorageCallback event, StreamAck (streamEntryId msg)], db')"
    by (simp add: processMessage_def xAck_success)
next
  assume a: "\<not> clientMissing env \<and> \<not> xAckThrows env"
    and c: "convertedEvent msg = Some event \<and> callback event db = (Thrown err, db')"
  then show "processMessage calls env (Some callback) msg db
             = (calls @ [StorageCallback event, StreamAck (streamEntryId msg)], db')"
    by (simp add: processMessage_def processMessageCatch_def xAck_success)
next
  assume a: "\<not> clientMissing env \<and> \<not> xAckThrows env"
    and c: "convertedEvent msg = None"
  then show "processMessage calls env (Some callback) msg db
             = (calls @ [StreamAck (streamEntryId msg)], db)"
    by (simp add: processMessage_def processMessageCatch_def xAck_success)
qed

text \<open>
  The theorem at a delivery that is appended and acked, at a delivery whose content does not
  parse, and at an entry whose callback saves the event.
\<close>

theorem relay_acknowledgement_witness:
  "onBrokerDelivery []
     \<lparr>streamConnectThrows = False, clientMissing = False, xAddThrows = False,
        xAckThrows = False, xAddId = ''1700000000000-0''\<rparr>
     (Some \<lparr>parsedContent = Some \<lparr>eventId = ''e1'', sessionId = ''s1'', fromUser = ''5511999990000'',
        messageType = ''text''\<rparr>\<rparr>)
   = [StreamAdd \<lparr>eventId = ''e1'', sessionId = ''s1'', fromUser = ''5511999990000'',
        messageType = ''text''\<rparr>, BrokerAck]
   \<and> onBrokerDelivery []
     \<lparr>streamConnectThrows = False, clientMissing = False, xAddThrows = False,
        xAckThrows = False, xAddId = ''1700000000000-0''\<rparr>
     (Some \<lparr>parsedContent = None\<rparr>)
   = [BrokerNack False False]
   \<and> processMessage []
     \<lparr>streamConnectThrows = False, clientMissing = False, xAddThrows = False,
        xAckThrows = False, xAddId = ''1700000000000-0''\<rparr>
     (Some (saveMessageCallback False))
     \<lparr>streamEntryId = ''1700000000000-0'',
      convertedEvent = Some \<lparr>eventId = ''e1'', sessionId = ''s1'', fromUser = ''5511999990000'',
        messageType = ''text''\<rparr>\<rparr>
     []
   = ([StorageCallback \<lparr>eventId = ''e1'', sessionId = ''s1'', fromUser = ''5511999990000'',
        messageType = ''text''\<rparr>,
       StreamAck ''1700000000000-0''],
      [\<lparr>eventId = ''e1'', sessionId = ''s1'', fromUser = ''5511999990000'',
        messageType = ''text''\<rparr>])"
  using relay_acknowledgement [where d = "\<lparr>parsedContent = Some \<lparr>eventId = ''e1'', sessionId = ''s1'', fromUser = ''5511999990000'',
        messageType = ''text''\<rparr>\<rparr>"
      and event = "\<lparr>eventId = ''e1'', sessionId = ''s1'', fromUser = ''5511999990000'',
        messageType = ''text''\<rparr>"
      and env = "\<lparr>streamConnectThrows = False, clientMissing = False, xAddThrows = False,
        xAckThrows = False, xAddId = ''1700000000000-0''\<rparr>"
      and calls = "[]"
      and msg = "\<lparr>streamEntryId = ''1700000000000-0'',
         convertedEvent = Some \<lparr>eventId = ''e1'', sessionId = ''s1'', fromUser = ''5511999990000'',
        messageType = ''text''\<rparr>\<rparr>"
      and callback = "saveMessageCallback False"
      and db = "[]"
      and db' = "[\<lparr>eventId = ''e1'', sessionId = ''s1'', fromUser = ''5511999990000'',
        messageType = ''text''\<rparr>]"]
    relay_acknowledgement [where d = "\<lparr>parsedContent = None\<rparr>"
      and env = "\<lparr>streamConnectThrows = False, clientMissing = False, xAddThrows = False,
        xAckThrows = False, xAddId = ''1700000000000-0''\<rparr>"
      and calls = "[]"
      and callback = "saveMessageCallback False"]
  by (simp add: saveMessageCallback_def)

end
